theory Spec2Isabelle
  imports Main
begin

section \<open>JavaScript strings, character classes and regular expressions\<close>

text \<open>
  A JavaScript string is a sequence of UTF-16 code units. The model writes it as a
  \<open>string\<close>, each \<open>char\<close> standing for the code unit of the same number, so it covers
  the strings over U+0000 .. U+00FF; \<open>length\<close> counts code units, as \<open>.length\<close> does.

  \<open>js_digit\<close> is the class \<open>\d\<close>, \<open>js_space\<close> the class \<open>\s\<close> (which is also what
  \<open>String.prototype.trim\<close> strips): tab, line feed, vertical tab, form feed, carriage
  return, space and no-break space are its members below U+0100.
\<close>

definition js_digit :: "char \<Rightarrow> bool" where
  "js_digit c = (c \<in> set ''0123456789'')"

definition js_space :: "char \<Rightarrow> bool" where
  "js_space c =
     (c = CHR 0x09 \<or> c = CHR 0x0A \<or> c = CHR 0x0B \<or> c = CHR 0x0C \<or> c = CHR 0x0D
      \<or> c = CHR 0x20 \<or> c = CHR 0xA0)"

definition js_hexdigit :: "char \<Rightarrow> bool" where
  "js_hexdigit c = (c \<in> set ''0123456789abcdefABCDEF'')"

definition trim :: "string \<Rightarrow> string" where
  "trim s = rev (dropWhile js_space (rev (dropWhile js_space s)))"

text \<open>
  The regular expressions of the source are anchored sequences of character classes,
  each taken once, once or more (\<open>+\<close>) or optionally (\<open>?\<close>). \<open>rx_match\<close> is
  \<open>RegExp.prototype.test\<close> for such a pattern written between \<open>^\<close> and \<open>$\<close>: it tries
  every way of splitting the input, as the backtracking matcher does.
\<close>

datatype quant = One | Plus | Opt

type_synonym regex = "(quant \<times> (char \<Rightarrow> bool)) list"

fun rx_match :: "regex \<Rightarrow> string \<Rightarrow> bool" where
  "rx_match [] s = (s = [])"
| "rx_match ((One, p) # r) [] = False"
| "rx_match ((One, p) # r) (c # cs) = (p c \<and> rx_match r cs)"
| "rx_match ((Opt, p) # r) [] = rx_match r []"
| "rx_match ((Opt, p) # r) (c # cs) = ((p c \<and> rx_match r cs) \<or> rx_match r (c # cs))"
| "rx_match ((Plus, p) # r) [] = False"
| "rx_match ((Plus, p) # r) (c # cs) =
     (p c \<and> (rx_match ((Plus, p) # r) cs \<or> rx_match r cs))"

section \<open>Outcomes\<close>

text \<open>
  What a function of the model yields: the value it returns, the exception it throws,
  or \<open>Unmodelled\<close> where the input leaves the part of JavaScript the model covers
  (the model then says nothing about the code).
\<close>

datatype error = SyntaxError | TypeError

datatype 'a outcome = Returns 'a | Throws error | Unmodelled

text \<open>\<open>andThen\<close> goes on with the value returned and passes on everything else.\<close>

definition andThen :: "'a outcome \<Rightarrow> ('a \<Rightarrow> 'b outcome) \<Rightarrow> 'b outcome" where
  "andThen m f = (case m of Returns x \<Rightarrow> f x | Throws e \<Rightarrow> Throws e | Unmodelled \<Rightarrow> Unmodelled)"

section \<open>Colour conversion (ThemeManager and ThemeCustomizer)\<close>

text \<open>
  Both classes carry the same two functions. \<open>hex_pattern\<close> is
  \<^verbatim>\<open>/^#?([a-f\d]{2})([a-f\d]{2})([a-f\d]{2})$/i\<close>; its three groups have a fixed
  width, so they are the three pairs of characters after the optional \<open>#\<close>.
\<close>

definition hex_pattern :: regex where
  "hex_pattern =
     [(Opt, \<lambda>c. c = CHR ''#''),
      (One, js_hexdigit), (One, js_hexdigit), (One, js_hexdigit),
      (One, js_hexdigit), (One, js_hexdigit), (One, js_hexdigit)]"

definition toLowerCase_char :: "char \<Rightarrow> char" where
  "toLowerCase_char c =
     (case map_of (zip ''ABCDEFGHIJKLMNOPQRSTUVWXYZ'' ''abcdefghijklmnopqrstuvwxyz'') c of
        Some l \<Rightarrow> l
      | None \<Rightarrow> c)"

definition hexval :: "char \<Rightarrow> int" where
  "hexval c =
     (case map_of (zip ''0123456789abcdef'' [0 ..< 16]) (toLowerCase_char c) of
        Some v \<Rightarrow> int v
      | None \<Rightarrow> 0)"

definition hexchar :: "nat \<Rightarrow> char" where
  "hexchar n = ''0123456789abcdef'' ! n"

text \<open>
  \<open>parseInt(s, 16)\<close> reads the leading hexadecimal digits of \<open>s\<close>. It is only called
  on a group of the pattern, which holds two such digits, so the result \<open>NaN\<close> of a
  string without a leading digit does not arise.
\<close>

definition parseInt16 :: "string \<Rightarrow> int" where
  "parseInt16 s = foldl (\<lambda>a c. 16 * a + hexval c) 0 (takeWhile js_hexdigit s)"

record rgb =
  r :: int
  g :: int
  b :: int

definition hexToRgb :: "string \<Rightarrow> rgb option" where
  "hexToRgb hex =
     (if rx_match hex_pattern hex
      then (let t = (if take 1 hex = ''#'' then drop 1 hex else hex)
            in Some \<lparr>r = parseInt16 (take 2 t),
                     g = parseInt16 (take 2 (drop 2 t)),
                     b = parseInt16 (take 2 (drop 4 t))\<rparr>)
      else None)"

text \<open>
  \<open>x << n\<close> works on 32-bit two's complement integers; its result is added as a
  number. \<open>toString(16)\<close> writes a sign and the hexadecimal digits, and \<open>slice(1)\<close>
  drops the first character.
\<close>

definition js_shl :: "int \<Rightarrow> nat \<Rightarrow> int" where
  "js_shl x n = signed_take_bit 31 (x * 2 ^ n)"

function hexdigits :: "nat \<Rightarrow> string" where
  "hexdigits n = (if n < 16 then [hexchar n] else hexdigits (n div 16) @ [hexchar (n mod 16)])"
  by pat_completeness auto
termination
  by (relation "measure id") auto

declare hexdigits.simps [simp del]

definition toString16 :: "int \<Rightarrow> string" where
  "toString16 n = (if n < 0 then CHR ''-'' # hexdigits (nat (- n)) else hexdigits (nat n))"

definition rgbToHex :: "rgb \<Rightarrow> string" where
  "rgbToHex c =
     ''#'' @ drop 1 (toString16 (js_shl 1 24 + js_shl (r c) 16 + js_shl (g c) 8 + b c))"

section \<open>Field validators (FormValidator)\<close>

record ValidationResult =
  isValid :: bool
  message :: string

text \<open>
  \<open>email_pattern\<close> is \<^verbatim>\<open>/^[^\s@]+@[^\s@]+\.[^\s@]+$/\<close> and \<open>phone_pattern\<close> is
  \<^verbatim>\<open>/^[\d\s\-\(\)]+$/\<close>. The argument of a validator is the value of a text input,
  a string, so \<open>!email\<close> holds exactly for the empty string.
\<close>

definition email_char :: "char \<Rightarrow> bool" where
  "email_char c = (\<not> js_space c \<and> c \<noteq> CHR ''@'')"

definition email_pattern :: regex where
  "email_pattern =
     [(Plus, email_char), (One, \<lambda>c. c = CHR ''@''), (Plus, email_char),
      (One, \<lambda>c. c = CHR ''.''), (Plus, email_char)]"

definition phone_char :: "char \<Rightarrow> bool" where
  "phone_char c = (js_digit c \<or> js_space c \<or> c = CHR ''-'' \<or> c = CHR ''('' \<or> c = CHR '')'')"

definition phone_pattern :: regex where
  "phone_pattern = [(Plus, phone_char)]"

definition validateEmail :: "string \<Rightarrow> ValidationResult" where
  "validateEmail email =
     (if email = [] \<or> trim email = []
      then \<lparr>isValid = False, message = ''Email is required''\<rparr>
      else if \<not> rx_match email_pattern email
      then \<lparr>isValid = False, message = ''Please enter a valid email address''\<rparr>
      else \<lparr>isValid = True, message = []\<rparr>)"

definition validatePhone :: "string \<Rightarrow> ValidationResult" where
  "validatePhone phone =
     (if phone = [] \<or> trim phone = []
      then \<lparr>isValid = False, message = ''Phone number is required''\<rparr>
      else (let digitsOnly = filter js_digit phone
            in if length digitsOnly < 10
               then \<lparr>isValid = False, message = ''Please enter a valid phone number''\<rparr>
               else if \<not> rx_match phone_pattern phone
               then \<lparr>isValid = False, message = ''Please enter a valid phone number''\<rparr>
               else \<lparr>isValid = True, message = []\<rparr>))"

section \<open>Notifications (ToastManager)\<close>

text \<open>
  \<open>ToastManager.show(message, type = "info", duration = 4000)\<close> appends a toast to the
  container. The state keeps the toasts in the order they were shown; their removal
  by timer is not modelled.
\<close>

record toast =
  toast_message :: string
  toast_type :: string
  toast_duration :: nat

definition show_toast :: "string \<Rightarrow> string \<Rightarrow> nat \<Rightarrow> toast list \<Rightarrow> toast list" where
  "show_toast msg type dur ts =
     ts @ [\<lparr>toast_message = msg, toast_type = type, toast_duration = dur\<rparr>]"

text \<open>The way an asynchronous operation settles.\<close>

datatype settle = Resolves | Rejects

text \<open>An operation that fails, whatever it is given.\<close>

definition rejecting :: "'a \<Rightarrow> settle" where
  "rejecting data = Rejects"

section \<open>Decimal numerals\<close>

text \<open>\<open>String(n)\<close> for an integer \<open>n\<close>, as template literals and \<open>toString()\<close> write it.\<close>

definition decchar :: "nat \<Rightarrow> char" where
  "decchar n = ''0123456789'' ! n"

function decdigits :: "nat \<Rightarrow> string" where
  "decdigits n = (if n < 10 then [decchar n] else decdigits (n div 10) @ [decchar (n mod 10)])"
  by pat_completeness auto
termination
  by (relation "measure id") auto

declare decdigits.simps [simp del]

definition show_int :: "int \<Rightarrow> string" where
  "show_int n = (if n < 0 then CHR ''-'' # decdigits (nat (- n)) else decdigits (nat n))"

text \<open>The value of a decimal digit.\<close>

definition digitval :: "char \<Rightarrow> int" where
  "digitval c =
     (case map_of (zip ''0123456789'' [0 ..< 10]) c of Some v \<Rightarrow> int v | None \<Rightarrow> 0)"

section \<open>Support ticket form (TicketManager)\<close>

text \<open>
  The state holds the values of the form controls, the error display of each field
  (\<open>showError\<close> adds the class \<open>error\<close> to the control and writes the message into
  its error element; \<open>Some m\<close> stands for both), the toasts, the busy state of the submit
  button, whether the modal is open, and the calls made to \<open>submitTicket\<close>. The
  elements the constructor looks up are taken to exist; the character counter and the
  line about the attached file, which only display, are left out.
\<close>

datatype ticket_field = Name | Email | Category | Priority | Subject | Description

record ticketData =
  td_name :: string
  td_email :: string
  td_category :: string
  td_priority :: string
  td_subject :: string
  td_description :: string
  td_file :: "string option"
  td_timestamp :: string

record ticket_form =
  nameInput :: string
  emailInput :: string
  categorySelect :: string
  prioritySelect :: string
  subjectInput :: string
  descriptionTextarea :: string
  fileInput :: "string option"
  errors :: "ticket_field \<Rightarrow> string option"
  toasts :: "toast list"
  loading :: bool
  modalActive :: bool
  submitted :: "ticketData list"

definition showError :: "ticket_field \<Rightarrow> string \<Rightarrow> ticket_form \<Rightarrow> ticket_form" where
  "showError f msg st = st\<lparr>errors := (errors st)(f := Some msg)\<rparr>"

definition validateName :: "ticket_form \<Rightarrow> bool \<times> ticket_form" where
  "validateName st =
     (let v = trim (nameInput st)
      in if v = [] then (False, showError Name ''Please enter your name'' st)
         else if length v < 2
         then (False, showError Name ''Name must be at least 2 characters'' st)
         else (True, st))"

definition ticket_validateEmail :: "ticket_form \<Rightarrow> bool \<times> ticket_form" where
  "ticket_validateEmail st =
     (let v = trim (emailInput st)
      in if v = [] then (False, showError Email ''Please enter your email'' st)
         else if \<not> rx_match email_pattern v
         then (False, showError Email ''Please enter a valid email address'' st)
         else (True, st))"

definition validateCategory :: "ticket_form \<Rightarrow> bool \<times> ticket_form" where
  "validateCategory st =
     (if categorySelect st = [] then (False, showError Category ''Please select a category'' st)
      else (True, st))"

definition validatePriority :: "ticket_form \<Rightarrow> bool \<times> ticket_form" where
  "validatePriority st =
     (if prioritySelect st = []
      then (False, showError Priority ''Please select a priority level'' st)
      else (True, st))"

definition validateSubject :: "ticket_form \<Rightarrow> bool \<times> ticket_form" where
  "validateSubject st =
     (let v = trim (subjectInput st)
      in if v = [] then (False, showError Subject ''Please enter a subject'' st)
         else if length v < 5
         then (False, showError Subject ''Subject must be at least 5 characters'' st)
         else (True, st))"

definition validateDescription :: "ticket_form \<Rightarrow> bool \<times> ticket_form" where
  "validateDescription st =
     (let v = trim (descriptionTextarea st)
      in if v = [] then (False, showError Description ''Please describe your issue'' st)
         else if length v < 20
         then (False, showError Description
                 ''Please provide more details (at least 20 characters)'' st)
         else if length v > 1000
         then (False, showError Description
                 ''Description is too long (max 1000 characters)'' st)
         else (True, st))"

text \<open>
  \<open>generateTicketNumber\<close> reads the clock and the random generator; the model takes
  \<open>Date.now()\<close> and \<open>Math.floor(Math.random() * 1000)\<close> as arguments, and the text of
  \<open>new Date().toISOString()\<close> likewise.
\<close>

record clock =
  now_ms :: nat
  now_iso :: string
  random1000 :: nat

definition slice_last :: "nat \<Rightarrow> string \<Rightarrow> string" where
  "slice_last k s = drop (length s - k) s"

definition padStart :: "nat \<Rightarrow> char \<Rightarrow> string \<Rightarrow> string" where
  "padStart k c s = replicate (k - length s) c @ s"

definition generateTicketNumber :: "clock \<Rightarrow> string" where
  "generateTicketNumber clk =
     ''SF'' @ ''-'' @ slice_last 6 (decdigits (now_ms clk)) @ ''-'' @
       padStart 3 (CHR ''0'') (decdigits (random1000 clk))"

text \<open>
  \<open>handleSubmit\<close> is asynchronous: it awaits \<open>submitTicket\<close> and, after a success,
  closes the modal and frees the button from a timer 1500 ms later. The model gives
  the state once the promise has settled and that timer has run; the operation it
  awaits is the argument \<open>submit\<close>, so that its rejection can be spoken of (the
  \<open>submitTicket\<close> of the source always resolves). All six validators
  are called while the array literal is built, before \<open>every\<close> looks at the results.
  \<open>form.reset()\<close> resets the controls to the values of the markup, taken to be
  empty.
\<close>

definition ticket_handleSubmit ::
  "(ticketData \<Rightarrow> settle) \<Rightarrow> clock \<Rightarrow> ticket_form \<Rightarrow> ticket_form" where
  "ticket_handleSubmit submit clk st0 =
     (let (v1, st1) = validateName st0;
          (v2, st2) = ticket_validateEmail st1;
          (v3, st3) = validateCategory st2;
          (v4, st4) = validatePriority st3;
          (v5, st5) = validateSubject st4;
          (v6, st6) = validateDescription st5;
          valid = list_all (\<lambda>result. result = True) [v1, v2, v3, v4, v5, v6]
      in if \<not> valid
         then st6\<lparr>toasts := show_toast ''Please fix the errors in the form'' ''error'' 4000
                               (toasts st6)\<rparr>
         else
           (let data = \<lparr>td_name = trim (nameInput st6), td_email = trim (emailInput st6),
                        td_category = categorySelect st6, td_priority = prioritySelect st6,
                        td_subject = trim (subjectInput st6),
                        td_description = trim (descriptionTextarea st6),
                        td_file = fileInput st6, td_timestamp = now_iso clk\<rparr>;
                st7 = st6\<lparr>loading := True, submitted := submitted st6 @ [data]\<rparr>
            in case submit data of
                 Resolves \<Rightarrow>
                   st7\<lparr>toasts := show_toast
                          (''Ticket #'' @ generateTicketNumber clk @ '' created! We'' @ [CHR 0x27]
                             @ ''ll email you soon at '' @ td_email data)
                          ''success'' 6000 (toasts st7),
                        nameInput := [], emailInput := [], categorySelect := [],
                        prioritySelect := [], subjectInput := [], descriptionTextarea := [],
                        fileInput := None, modalActive := False, loading := False\<rparr>
               | Rejects \<Rightarrow>
                   st7\<lparr>toasts := show_toast
                          ''Failed to submit ticket. Please try again or email us directly.''
                          ''error'' 4000 (toasts st7),
                        loading := False\<rparr>))"

text \<open>The form as the page shows it first: every control empty, nothing marked.\<close>

definition blank_ticket_form :: ticket_form where
  "blank_ticket_form =
     \<lparr>nameInput = [], emailInput = [], categorySelect = [], prioritySelect = [],
      subjectInput = [], descriptionTextarea = [], fileInput = None,
      errors = (\<lambda>f. None), toasts = [], loading = False, modalActive = False,
      submitted = []\<rparr>"

text \<open>The validator that \<open>handleSubmit\<close> runs for each field.\<close>

definition validateField :: "ticket_field \<Rightarrow> ticket_form \<Rightarrow> bool \<times> ticket_form" where
  "validateField f st =
     (case f of
        Name \<Rightarrow> validateName st
      | Email \<Rightarrow> ticket_validateEmail st
      | Category \<Rightarrow> validateCategory st
      | Priority \<Rightarrow> validatePriority st
      | Subject \<Rightarrow> validateSubject st
      | Description \<Rightarrow> validateDescription st)"

text \<open>The simulated \<open>submitTicket\<close> of the source resolves, after a delay.\<close>

definition submitTicket :: "ticketData \<Rightarrow> settle" where
  "submitTicket data = Resolves"

text \<open>
  Two filled-in ticket forms used as examples: the scenario of the specification
  (name \<open>A\<close>, e-mail \<open>bad\<close>, no subject, the other fields in order) and a form that
  passes every validator; and a reading of the clock.
\<close>

definition scenario_ticket_form :: ticket_form where
  "scenario_ticket_form =
     blank_ticket_form\<lparr>nameInput := ''A'', emailInput := ''bad'',
       categorySelect := ''technical'', prioritySelect := ''high'', subjectInput := [],
       descriptionTextarea := ''The page does not load at all.''\<rparr>"

definition valid_ticket_form :: ticket_form where
  "valid_ticket_form =
     blank_ticket_form\<lparr>nameInput := ''Jane Doe'', emailInput := ''jane@x.com'',
       categorySelect := ''technical'', prioritySelect := ''high'',
       subjectInput := ''Login fails'',
       descriptionTextarea := ''The page does not load at all.''\<rparr>"

definition example_clock :: clock where
  "example_clock =
     \<lparr>now_ms = 1700000123456, now_iso = ''2023-11-14T22:15:23.456Z'', random1000 = 7\<rparr>"

section \<open>Donation form (DonationManager)\<close>

text \<open>
  \<open>selectedAmount\<close> is a number, \<open>null\<close> after the custom amount was chosen, or the
  \<open>NaN\<close> that \<open>parseInt\<close> gives for a button without a numeric amount; \<open>null\<close> and
  \<open>NaN\<close> are both falsy and are both written \<open>None\<close>. The numbers are the integers
  \<open>parseInt\<close> reads from the buttons, whose decimal text is what \<open>String\<close> writes.
  \<open>customAmount\<close> is the text of the custom amount input, so
  \<open>customAmount || this.selectedAmount\<close> is that text unless it is empty. The success
  message of the source ends in a pictograph outside U+00FF, which the modelled text
  leaves out.
\<close>

datatype amount = AmountText string | AmountNumber int | AmountNone

record donationData =
  dd_name :: string
  dd_email :: string
  dd_amount :: amount
  dd_frequency :: string
  dd_anonymous :: bool
  dd_featured :: bool
  dd_partner :: bool

record donation_form =
  donorName :: string
  donorEmail :: string
  customAmount :: string
  selectedAmount :: "int option"
  selectedFrequency :: string
  anonymousChecked :: bool
  featuredChecked :: bool
  partnerChecked :: bool
  d_toasts :: "toast list"
  d_loading :: bool
  d_submitted :: "donationData list"

text \<open>
  \<open>finalAmount <= 0\<close> on a text converts the text to a number first, as \<open>Number\<close>
  does. \<open>StringToNumber\<close> is that conversion, for every text: blanks are stripped from
  both ends; the empty text is 0; a text is a numeral when it is \<open>0b\<close>, \<open>0o\<close> or \<open>0x\<close>
  followed by digits of that radix, or an optional sign followed by \<open>Infinity\<close> or by
  decimal digits with an optional point and an optional exponent (digits are needed
  before or after the point); every other text is \<open>NaN\<close>.

  A number of the model is \<open>NaN\<close>, an infinity with its sign, or \<open>Decimal neg m e\<close>, which
  stands for the double nearest to \<open>m\<close> times the \<open>e\<close>-th power of ten, negated when
  \<open>neg\<close> holds. The comparison with 0 needs the sign of that double only: a value with
  the negative sign is negative or the negative zero, and a value without it is a
  positive double unless it is at most \<open>2 ^ - 1075\<close>, half the least positive double,
  which rounds to 0. A comparison with \<open>NaN\<close> is false.
\<close>

datatype number = NaN | Infinity bool | Decimal bool int int

definition radix_literal :: "string \<Rightarrow> int option" where
  "radix_literal t =
     (case t of
        z # x # ds \<Rightarrow>
          if z = CHR ''0'' \<and> ds \<noteq> []
          then (if x \<in> set ''bB'' \<and> list_all (\<lambda>c. c \<in> set ''01'') ds
                then Some (foldl (\<lambda>a c. 2 * a + digitval c) 0 ds)
                else if x \<in> set ''oO'' \<and> list_all (\<lambda>c. c \<in> set ''01234567'') ds
                then Some (foldl (\<lambda>a c. 8 * a + digitval c) 0 ds)
                else if x \<in> set ''xX'' \<and> list_all js_hexdigit ds
                then Some (foldl (\<lambda>a c. 16 * a + hexval c) 0 ds)
                else None)
          else None
      | _ \<Rightarrow> None)"

text \<open>
  The exponent at the end of a decimal numeral: nothing (the exponent 0), or \<open>e\<close> or
  \<open>E\<close>, an optional sign and at least one digit.
\<close>

definition exponent_part :: "string \<Rightarrow> int option" where
  "exponent_part x =
     (case x of
        [] \<Rightarrow> Some 0
      | c # cs \<Rightarrow>
          if c \<in> set ''eE''
          then (let (neg, ds) =
                      (case cs of
                         s # ss \<Rightarrow> if s = CHR ''-'' then (True, ss)
                                    else if s = CHR ''+'' then (False, ss) else (False, cs)
                       | [] \<Rightarrow> (False, []));
                    v = foldl (\<lambda>a c. 10 * a + digitval c) 0 ds
                in if ds \<noteq> [] \<and> list_all js_digit ds
                   then Some (if neg then - v else v)
                   else None)
          else None)"

definition unsigned_decimal :: "bool \<Rightarrow> string \<Rightarrow> number" where
  "unsigned_decimal neg u =
     (if u = ''Infinity'' then Infinity neg
      else
        (let ip = takeWhile js_digit u;
             after_ip = dropWhile js_digit u;
             point = (take 1 after_ip = ''.'');
             fp = (if point then takeWhile js_digit (drop 1 after_ip) else []);
             after_fp = (if point then dropWhile js_digit (drop 1 after_ip) else after_ip)
         in if ip = [] \<and> fp = [] then NaN
            else case exponent_part after_fp of
                   None \<Rightarrow> NaN
                 | Some e \<Rightarrow>
                     Decimal neg (foldl (\<lambda>a c. 10 * a + digitval c) 0 (ip @ fp))
                       (e - int (length fp))))"

definition StringToNumber :: "string \<Rightarrow> number" where
  "StringToNumber s =
     (let t = trim s
      in if t = [] then Decimal False 0 0
         else case radix_literal t of
                Some n \<Rightarrow> Decimal False n 0
              | None \<Rightarrow>
                  (case t of
                     c # cs \<Rightarrow> if c = CHR ''-'' then unsigned_decimal True cs
                               else if c = CHR ''+'' then unsigned_decimal False cs
                               else unsigned_decimal False t
                   | [] \<Rightarrow> NaN))"

definition rounds_to_zero :: "int \<Rightarrow> int \<Rightarrow> bool" where
  "rounds_to_zero m e = (if 0 \<le> e then m = 0 else m * 2 ^ 1075 \<le> 10 ^ nat (- e))"

text \<open>\<open>x <= 0\<close> for a number \<open>x\<close>.\<close>

definition le_zero :: "number \<Rightarrow> bool" where
  "le_zero x =
     (case x of
        NaN \<Rightarrow> False
      | Infinity neg \<Rightarrow> neg
      | Decimal neg m e \<Rightarrow> neg \<or> rounds_to_zero m e)"

definition amount_text :: "amount \<Rightarrow> string" where
  "amount_text a =
     (case a of AmountText s \<Rightarrow> s | AmountNumber n \<Rightarrow> show_int n | AmountNone \<Rightarrow> ''null'')"

text \<open>
  \<open>handleSubmit\<close> awaits \<open>processDonation\<close>; as for the ticket form, the operation
  awaited is the argument \<open>process\<close> and the state is the one after the promise has
  settled. \<open>rejected\<close> is the test \<open>!finalAmount || finalAmount <= 0\<close>: a text that
  reaches it is not empty, hence not falsy. No step of the function throws, so every
  result is a \<open>Returns\<close>.
\<close>

definition donation_handleSubmit ::
  "(donationData \<Rightarrow> settle) \<Rightarrow> donation_form \<Rightarrow> donation_form outcome" where
  "donation_handleSubmit process st =
     (if donorName st = [] \<or> donorEmail st = []
      then Returns (st\<lparr>d_toasts := show_toast ''Please fill in all required fields'' ''error''
                                      4000 (d_toasts st)\<rparr>)
      else
        (let finalAmount =
               (if customAmount st \<noteq> [] then AmountText (customAmount st)
                else case selectedAmount st of Some n \<Rightarrow> AmountNumber n | None \<Rightarrow> AmountNone);
             rejected =
               (case finalAmount of
                  AmountNone \<Rightarrow> True
                | AmountNumber n \<Rightarrow> n = 0 \<or> n \<le> 0
                | AmountText s \<Rightarrow> le_zero (StringToNumber s))
         in if rejected
            then Returns (st\<lparr>d_toasts := show_toast ''Please select or enter a donation amount''
                                            ''error'' 4000 (d_toasts st)\<rparr>)
            else
              (let data = \<lparr>dd_name = donorName st, dd_email = donorEmail st,
                           dd_amount = finalAmount, dd_frequency = selectedFrequency st,
                           dd_anonymous = anonymousChecked st,
                           dd_featured = featuredChecked st,
                           dd_partner = partnerChecked st\<rparr>;
                   st1 = st\<lparr>d_loading := True, d_submitted := d_submitted st @ [data]\<rparr>
               in case process data of
                    Resolves \<Rightarrow>
                      Returns (st1\<lparr>d_toasts := show_toast
                                 (''Thank you for your '' @ selectedFrequency st
                                    @ '' donation of $'' @ amount_text finalAmount
                                    @ ''! You'' @ [CHR 0x27] @ ''re changing lives. '')
                                 ''success'' 6000 (d_toasts st1),
                               donorName := [], donorEmail := [], customAmount := [],
                               anonymousChecked := False, featuredChecked := False,
                               partnerChecked := False, d_loading := False\<rparr>)
                  | Rejects \<Rightarrow>
                      Returns (st1\<lparr>d_toasts := show_toast ''Payment failed. Please try again.''
                                                   ''error'' 4000 (d_toasts st1),
                               d_loading := False\<rparr>))))"

text \<open>The simulated \<open>processDonation\<close> of the source resolves, after a delay.\<close>

definition processDonation :: "donationData \<Rightarrow> settle" where
  "processDonation data = Resolves"

text \<open>The state the constructor of \<open>DonationManager\<close> sets up, over an empty form.\<close>

definition new_DonationManager :: donation_form where
  "new_DonationManager =
     \<lparr>donorName = [], donorEmail = [], customAmount = [], selectedAmount = Some 25,
      selectedFrequency = ''monthly'', anonymousChecked = False, featuredChecked = False,
      partnerChecked = False, d_toasts = [], d_loading = False, d_submitted = []\<rparr>"

section \<open>JSON\<close>

text \<open>
  \<open>JSON.stringify\<close> and \<open>JSON.parse\<close> belong to the platform. They are modelled on
  the JSON values whose numbers are integers and whose strings lie in the range of the
  model (a share count stays far below \<open>2 ^ 53\<close>, where the numbers of JavaScript
  are exact integers); an object is the list of its members in order. \<open>JSON_parse\<close> follows the JSON
  grammar: it yields \<open>Throws SyntaxError\<close> on a text outside the grammar, and
  \<open>Unmodelled\<close> on a number with a fraction or an exponent and on an escape
  \<open>\uXXXX\<close> above U+00FF, which are JSON but have no value in the model.
\<close>

datatype json =
    JNull
  | JBool bool
  | JNum int
  | JStr string
  | JArr "json list"
  | JObj "(string \<times> json) list"

text \<open>
  Writing: a string is quoted, with the quotation mark, the backslash and the control
  characters below U+0020 escaped the way \<open>JSON.stringify\<close> escapes them.
\<close>

definition escape_char :: "char \<Rightarrow> string" where
  "escape_char c =
     (if c = CHR 0x22 then [CHR 0x5C, CHR 0x22]
      else if c = CHR 0x5C then [CHR 0x5C, CHR 0x5C]
      else if c = CHR 0x08 then [CHR 0x5C, CHR ''b'']
      else if c = CHR 0x0C then [CHR 0x5C, CHR ''f'']
      else if c = CHR 0x0A then [CHR 0x5C, CHR ''n'']
      else if c = CHR 0x0D then [CHR 0x5C, CHR ''r'']
      else if c = CHR 0x09 then [CHR 0x5C, CHR ''t'']
      else if (of_char c :: nat) < 32
      then [CHR 0x5C, CHR ''u'', CHR ''0'', CHR ''0'',
            hexchar (of_char c div 16), hexchar (of_char c mod 16)]
      else [c])"

definition quote :: "string \<Rightarrow> string" where
  "quote s = CHR 0x22 # concat (map escape_char s) @ [CHR 0x22]"

fun join :: "string \<Rightarrow> string list \<Rightarrow> string" where
  "join sep [] = []"
| "join sep [x] = x"
| "join sep (x # y # ys) = x @ sep @ join sep (y # ys)"

fun JSON_stringify :: "json \<Rightarrow> string"
  and stringify_elements :: "json list \<Rightarrow> string list"
  and stringify_members :: "(string \<times> json) list \<Rightarrow> string list" where
  "JSON_stringify JNull = ''null''"
| "JSON_stringify (JBool v) = (if v then ''true'' else ''false'')"
| "JSON_stringify (JNum n) = show_int n"
| "JSON_stringify (JStr s) = quote s"
| "JSON_stringify (JArr vs) = ''['' @ join '','' (stringify_elements vs) @ '']''"
| "JSON_stringify (JObj kvs) = ''{'' @ join '','' (stringify_members kvs) @ ''}''"
| "stringify_elements [] = []"
| "stringify_elements (v # vs) = JSON_stringify v # stringify_elements vs"
| "stringify_members [] = []"
| "stringify_members ((k, v) # kvs) =
     (quote k @ '':'' @ JSON_stringify v) # stringify_members kvs"

text \<open>Reading: white space, strings, numbers, and then values with their nesting.\<close>

definition json_ws :: "char \<Rightarrow> bool" where
  "json_ws c = (c = CHR 0x20 \<or> c = CHR 0x09 \<or> c = CHR 0x0A \<or> c = CHR 0x0D)"

definition skip_ws :: "string \<Rightarrow> string" where
  "skip_ws s = dropWhile json_ws s"

definition unescape :: "char \<Rightarrow> char option" where
  "unescape c =
     map_of [(CHR 0x22, CHR 0x22), (CHR 0x5C, CHR 0x5C), (CHR ''/'', CHR ''/''),
             (CHR ''b'', CHR 0x08), (CHR ''f'', CHR 0x0C), (CHR ''n'', CHR 0x0A),
             (CHR ''r'', CHR 0x0D), (CHR ''t'', CHR 0x09)] c"

text \<open>\<open>parse_chars\<close> reads the characters of a string after its opening quotation mark.\<close>

fun parse_chars :: "string \<Rightarrow> (string \<times> string) outcome" where
  "parse_chars [] = Throws SyntaxError"
| "parse_chars (c # cs) =
     (if c = CHR 0x22 then Returns ([], cs)
      else if c = CHR 0x5C then
        (case cs of
           [] \<Rightarrow> Throws SyntaxError
         | e # rest \<Rightarrow>
             if e = CHR ''u'' then
               (case rest of
                  h1 # h2 # h3 # h4 # rest' \<Rightarrow>
                    if list_all js_hexdigit [h1, h2, h3, h4]
                    then (if h1 = CHR ''0'' \<and> h2 = CHR ''0''
                          then andThen (parse_chars rest')
                                 (\<lambda>(s, r). Returns (char_of (16 * hexval h3 + hexval h4) # s, r))
                          else Unmodelled)
                    else Throws SyntaxError
                | _ \<Rightarrow> Throws SyntaxError)
             else (case unescape e of
                     Some ch \<Rightarrow> andThen (parse_chars rest) (\<lambda>(s, r). Returns (ch # s, r))
                   | None \<Rightarrow> Throws SyntaxError))
      else if (of_char c :: nat) < 32 then Throws SyntaxError
      else andThen (parse_chars cs) (\<lambda>(s, r). Returns (c # s, r)))"

text \<open>
  A number is an optional minus sign and then either a single \<open>0\<close> or a run of digits
  not starting with \<open>0\<close>; what follows it is left to the caller.
\<close>

definition parse_number :: "string \<Rightarrow> (json \<times> string) outcome" where
  "parse_number s =
     (let (neg, t) = (case s of
                        [] \<Rightarrow> (False, s)
                      | c # cs \<Rightarrow> if c = CHR ''-'' then (True, cs) else (False, s));
          ds = (case t of
                  [] \<Rightarrow> []
                | c # cs \<Rightarrow> if c = CHR ''0'' then [c] else takeWhile js_digit t);
          rest = drop (length ds) t;
          n = foldl (\<lambda>a c. 10 * a + digitval c) 0 ds
      in if ds = [] then Throws SyntaxError
         else if rest \<noteq> [] \<and> hd rest \<in> set ''.eE'' then Unmodelled
         else Returns (JNum (if neg then - n else n), rest))"

text \<open>
  The parser of values descends with a counter that \<open>JSON_parse\<close> sets high enough
  for the whole text; were it to run out, the outcome would be \<open>Unmodelled\<close>.
\<close>

fun parse_value :: "nat \<Rightarrow> string \<Rightarrow> (json \<times> string) outcome"
  and parse_elements :: "nat \<Rightarrow> string \<Rightarrow> (json list \<times> string) outcome"
  and parse_members :: "nat \<Rightarrow> string \<Rightarrow> ((string \<times> json) list \<times> string) outcome" where
  "parse_value 0 s = Unmodelled"
| "parse_value (Suc n) s =
     (case skip_ws s of
        [] \<Rightarrow> Throws SyntaxError
      | c # cs \<Rightarrow>
          if c = CHR ''{'' then
            (case skip_ws cs of
               [] \<Rightarrow> Throws SyntaxError
             | c' # cs' \<Rightarrow>
                 if c' = CHR ''}'' then Returns (JObj [], cs')
                 else andThen (parse_members n (c' # cs')) (\<lambda>(kvs, r). Returns (JObj kvs, r)))
          else if c = CHR ''['' then
            (case skip_ws cs of
               [] \<Rightarrow> Throws SyntaxError
             | c' # cs' \<Rightarrow>
                 if c' = CHR '']'' then Returns (JArr [], cs')
                 else andThen (parse_elements n (c' # cs')) (\<lambda>(vs, r). Returns (JArr vs, r)))
          else if c = CHR 0x22 then andThen (parse_chars cs) (\<lambda>(str, r). Returns (JStr str, r))
          else if c = CHR ''-'' \<or> js_digit c then parse_number (c # cs)
          else if take 4 (c # cs) = ''true'' then Returns (JBool True, drop 4 (c # cs))
          else if take 5 (c # cs) = ''false'' then Returns (JBool False, drop 5 (c # cs))
          else if take 4 (c # cs) = ''null'' then Returns (JNull, drop 4 (c # cs))
          else Throws SyntaxError)"
| "parse_elements 0 s = Unmodelled"
| "parse_elements (Suc n) s =
     andThen (parse_value n s)
       (\<lambda>(v, r).
          case skip_ws r of
            [] \<Rightarrow> Throws SyntaxError
          | c # cs \<Rightarrow>
              if c = CHR '','' then andThen (parse_elements n cs) (\<lambda>(vs, r'). Returns (v # vs, r'))
              else if c = CHR '']'' then Returns ([v], cs)
              else Throws SyntaxError)"
| "parse_members 0 s = Unmodelled"
| "parse_members (Suc n) s =
     (case skip_ws s of
        [] \<Rightarrow> Throws SyntaxError
      | c # cs \<Rightarrow>
          if c = CHR 0x22 then
            andThen (parse_chars cs)
              (\<lambda>(k, r).
                 case skip_ws r of
                   [] \<Rightarrow> Throws SyntaxError
                 | c1 # r1 \<Rightarrow>
                     if c1 = CHR '':'' then
                       andThen (parse_value n r1)
                         (\<lambda>(v, r2).
                            case skip_ws r2 of
                              [] \<Rightarrow> Throws SyntaxError
                            | c2 # r3 \<Rightarrow>
                                if c2 = CHR '','' then
                                  andThen (parse_members n r3)
                                    (\<lambda>(kvs, r4). Returns ((k, v) # kvs, r4))
                                else if c2 = CHR ''}'' then Returns ([(k, v)], r3)
                                else Throws SyntaxError)
                     else Throws SyntaxError)
          else Throws SyntaxError)"

definition JSON_parse :: "string \<Rightarrow> json outcome" where
  "JSON_parse s =
     andThen (parse_value (2 * length s + 2) s)
       (\<lambda>(v, r). if skip_ws r = [] then Returns v else Throws SyntaxError)"

text \<open>
  A number read by \<open>parse_number\<close> ends where the text ends or goes on with a
  character that is no digit, no point and no exponent mark.
\<close>

definition number_ends :: "string \<Rightarrow> bool" where
  "number_ends rest = (rest = [] \<or> (\<not> js_digit (hd rest) \<and> hd rest \<notin> set ''.eE''))"

text \<open>
  \<open>data.key\<close> on a parsed value other than \<open>null\<close>: the member of that name, the last
  one if the text repeated it, and \<open>undefined\<close> (\<open>None\<close>) where there is none. The
  keys read by the code are no array indices and not \<open>length\<close>, so a string, a
  number, a boolean and an array have none of them.
\<close>

definition js_get :: "json \<Rightarrow> string \<Rightarrow> json option" where
  "js_get data key = (case data of JObj kvs \<Rightarrow> map_of (rev kvs) key | _ \<Rightarrow> None)"

section \<open>Share progress (SocialSharingManager)\<close>

text \<open>
  The state: the two fields of the object, the parts of the page it writes (whether
  the champion section carries the class \<open>hidden\<close>, the progress message, the share
  count shown, the platforms handed to \<open>markPlatformShared\<close>, which ticks the
  button of a platform where the page has one), the toasts, and
  \<open>localStorage\<close>. The width of the progress bar, a floating-point percentage, is
  left out, and so are the pictographs in the texts, which lie outside U+00FF. The
  elements the constructor looks up are taken to exist. \<open>sharedPlatforms\<close> is a
  \<open>Set\<close>: a list without repetition, in the order of insertion, which is the order
  \<open>Array.from\<close> gives.
\<close>

record sharing =
  shareCount :: int
  sharedPlatforms :: "string list"
  championHidden :: bool
  progressMessage :: string
  shareCountText :: string
  markedShared :: "string set"
  s_toasts :: "toast list"
  localStorage :: "string \<rightharpoonup> string"

definition updateProgress :: "sharing \<Rightarrow> sharing" where
  "updateProgress st =
     st\<lparr>shareCountText := show_int (shareCount st),
        progressMessage :=
          (if shareCount st \<ge> 3 then '' You'' @ [CHR 0x27] @ ''re a Community Champion!''
           else (let remaining = 3 - shareCount st
                 in ''Share on '' @ show_int remaining @ '' more ''
                      @ (if remaining = 1 then ''platform'' else ''platforms'')
                      @ '' to become a Community Champion!''))\<rparr>"

definition markPlatformShared :: "string \<Rightarrow> sharing \<Rightarrow> sharing" where
  "markPlatformShared platform st = st\<lparr>markedShared := insert platform (markedShared st)\<rparr>"

definition unlockChampionStatus :: "sharing \<Rightarrow> sharing" where
  "unlockChampionStatus st = (if championHidden st then st\<lparr>championHidden := False\<rparr> else st)"

definition saveProgress :: "sharing \<Rightarrow> sharing" where
  "saveProgress st =
     st\<lparr>localStorage := (localStorage st)(''studyflow-share-progress'' \<mapsto>
          JSON_stringify (JObj [(''count'', JNum (shareCount st)),
                                (''platforms'', JArr (map JStr (sharedPlatforms st)))]))\<rparr>"

definition registerShare :: "string \<Rightarrow> sharing \<Rightarrow> sharing" where
  "registerShare platform st =
     (if platform \<in> set (sharedPlatforms st)
      then st\<lparr>s_toasts := show_toast ''You already shared on this platform!'' ''info'' 4000
                             (s_toasts st)\<rparr>
      else
        (let st1 = st\<lparr>sharedPlatforms := sharedPlatforms st @ [platform],
                      shareCount := shareCount st + 1\<rparr>;
             st2 = updateProgress st1;
             st3 = markPlatformShared platform st2;
             st4 = saveProgress st3;
             st5 = (if shareCount st4 \<ge> 3 \<and> \<not> championHidden st4
                    then unlockChampionStatus st4 else st4)
         in st5\<lparr>s_toasts := show_toast (''Shared on '' @ platform @ ''! '') ''success'' 4000
                                (s_toasts st5)\<rparr>))"

text \<open>
  \<open>new Set(array)\<close> adds the elements in turn. The state holds an integer count and
  platform names; \<open>data.count || 0\<close> and the elements of \<open>data.platforms\<close> fit
  there when the count is a number or falsy and the elements are strings, and the
  outcome is \<open>Unmodelled\<close> otherwise. Whatever the count, \<open>data.platforms.forEach\<close>
  (or \<open>new Set\<close> before it) throws a \<open>TypeError\<close> unless \<open>data.platforms\<close> is an
  array, and \<open>data.count\<close> throws one when \<open>data\<close> is \<open>null\<close>.
\<close>

definition new_Set :: "string list \<Rightarrow> string list" where
  "new_Set xs = foldl (\<lambda>acc x. if x \<in> set acc then acc else acc @ [x]) [] xs"

definition count_or_0 :: "json option \<Rightarrow> int option" where
  "count_or_0 v =
     (case v of
        None \<Rightarrow> Some 0
      | Some JNull \<Rightarrow> Some 0
      | Some (JBool c) \<Rightarrow> (if c then None else Some 0)
      | Some (JNum n) \<Rightarrow> Some n
      | Some (JStr s) \<Rightarrow> (if s = [] then Some 0 else None)
      | Some (JArr vs) \<Rightarrow> None
      | Some (JObj kvs) \<Rightarrow> None)"

fun strings_of :: "json list \<Rightarrow> string list option" where
  "strings_of [] = Some []"
| "strings_of (JStr s # vs) = map_option ((#) s) (strings_of vs)"
| "strings_of (v # vs) = None"

definition loadProgress :: "sharing \<Rightarrow> sharing outcome" where
  "loadProgress st =
     (case localStorage st ''studyflow-share-progress'' of
        None \<Rightarrow> Returns st
      | Some saved \<Rightarrow>
          if saved = [] then Returns st
          else andThen (JSON_parse saved)
            (\<lambda>data.
               if data = JNull then Throws TypeError
               else (case js_get data ''platforms'' of
                       Some (JArr vs) \<Rightarrow>
                         (case (count_or_0 (js_get data ''count''), strings_of vs) of
                            (Some n, Some platforms) \<Rightarrow>
                              (let st1 = st\<lparr>shareCount := n,
                                           sharedPlatforms := new_Set platforms\<rparr>;
                                   st2 = updateProgress st1;
                                   st3 = foldl (\<lambda>s platform. markPlatformShared platform s) st2
                                           platforms
                               in Returns (if shareCount st3 \<ge> 3
                                           then unlockChampionStatus st3 else st3))
                          | _ \<Rightarrow> Unmodelled)
                     | _ \<Rightarrow> Throws TypeError)))"

text \<open>
  The object the constructor builds on a freshly loaded page, whose champion section
  is hidden and whose \<open>localStorage\<close> is \<open>store\<close>: the fields are set and \<open>init\<close>
  loads the saved progress.
\<close>

definition fresh_sharing_page :: "(string \<rightharpoonup> string) \<Rightarrow> sharing" where
  "fresh_sharing_page store =
     \<lparr>shareCount = 0, sharedPlatforms = [], championHidden = True, progressMessage = [],
      shareCountText = ''0'', markedShared = {}, s_toasts = [], localStorage = store\<rparr>"

definition new_SocialSharingManager :: "(string \<rightharpoonup> string) \<Rightarrow> sharing outcome" where
  "new_SocialSharingManager store = loadProgress (fresh_sharing_page store)"

section \<open>Theme preferences (ThemeManager)\<close>

text \<open>
  The state: the custom properties the object sets on the root element (the primary
  colour as \<open>getComputedStyle\<close> reports it), the attribute \<open>data-theme\<close>, and
  \<open>localStorage\<close>. The highlighting of the preset and mode buttons and the value of
  the colour input, which only display the choice, are left out.
\<close>

record theme_page =
  primaryColor :: string
  primaryDark :: string
  primaryLight :: string
  primaryHover :: string
  dataTheme :: "string option"
  t_localStorage :: "string \<rightharpoonup> string"

definition adjustBrightness :: "rgb \<Rightarrow> int \<Rightarrow> rgb" where
  "adjustBrightness c percent =
     \<lparr>r = max 0 (min 255 (r c + (r c * percent) div 100)),
      g = max 0 (min 255 (g c + (g c * percent) div 100)),
      b = max 0 (min 255 (b c + (b c * percent) div 100))\<rparr>"

definition saveTheme :: "theme_page \<Rightarrow> theme_page" where
  "saveTheme d =
     d\<lparr>t_localStorage := (t_localStorage d)(''studyflow-theme'' \<mapsto>
          JSON_stringify
            (JObj [(''color'', JStr (trim (primaryColor d))),
                   (''mode'', JStr (case dataTheme d of
                                      None \<Rightarrow> ''light''
                                    | Some a \<Rightarrow> if a = [] then ''light'' else a))]))\<rparr>"

text \<open>
  \<open>applyColor\<close> sets the primary colour and then reads \<open>rgb.r\<close> of the result of
  \<open>hexToRgb\<close>, which is \<open>null\<close> for a colour that is not six hexadecimal digits.
\<close>

definition applyColor :: "string \<Rightarrow> theme_page \<Rightarrow> theme_page outcome" where
  "applyColor color d =
     (case hexToRgb color of
        None \<Rightarrow> Throws TypeError
      | Some rgb \<Rightarrow>
          Returns (saveTheme
            (d\<lparr>primaryColor := color,
               primaryDark := rgbToHex (adjustBrightness rgb (- 20)),
               primaryLight := rgbToHex (adjustBrightness rgb 20),
               primaryHover := rgbToHex (adjustBrightness rgb (- 10))\<rparr>)))"

definition toggleMode :: "string \<Rightarrow> theme_page \<Rightarrow> theme_page" where
  "toggleMode mode d =
     saveTheme (if mode = ''dark'' then d\<lparr>dataTheme := Some ''dark''\<rparr>
                else d\<lparr>dataTheme := None\<rparr>)"

text \<open>
  \<open>theme.color\<close> is passed to \<open>applyColor\<close>. When it is missing, \<open>null\<close> or a
  boolean, its text matches no colour and \<open>applyColor\<close> throws; a number, an array
  or an object in its place is left to \<open>Unmodelled\<close>.
\<close>

definition loadSavedTheme :: "theme_page \<Rightarrow> theme_page outcome" where
  "loadSavedTheme d =
     (case t_localStorage d ''studyflow-theme'' of
        None \<Rightarrow> Returns d
      | Some savedTheme \<Rightarrow>
          if savedTheme = [] then Returns d
          else andThen (JSON_parse savedTheme)
            (\<lambda>theme.
               if theme = JNull then Throws TypeError
               else (case js_get theme ''color'' of
                       Some (JStr color) \<Rightarrow>
                         andThen (applyColor color d)
                           (\<lambda>d1. Returns (if js_get theme ''mode'' = Some (JStr ''dark'')
                                           then d1\<lparr>dataTheme := Some ''dark''\<rparr> else d1))
                     | Some (JNum n) \<Rightarrow> Unmodelled
                     | Some (JArr vs) \<Rightarrow> Unmodelled
                     | Some (JObj kvs) \<Rightarrow> Unmodelled
                     | _ \<Rightarrow> Throws TypeError)))"

text \<open>The theme that \<open>saveTheme\<close> reads off the page: its colour and its mode.\<close>

definition current_theme :: "theme_page \<Rightarrow> string \<times> string" where
  "current_theme d =
     (trim (primaryColor d),
      case dataTheme d of None \<Rightarrow> ''light'' | Some a \<Rightarrow> if a = [] then ''light'' else a)"

text \<open>
  Example states: an empty \<open>localStorage\<close>; the share progress after the buttons
  for three different platforms were used on a fresh page; a page of the sign-in
  script with the blue of \<open>defaultColor\<close> and its shades.
\<close>

definition empty_storage :: "string \<rightharpoonup> string" where
  "empty_storage = Map.empty"

definition three_shares :: sharing where
  "three_shares =
     registerShare ''linkedin'' (registerShare ''facebook'' (registerShare ''twitter''
       (fresh_sharing_page empty_storage)))"

definition example_theme_page :: "(string \<rightharpoonup> string) \<Rightarrow> theme_page" where
  "example_theme_page store =
     \<lparr>primaryColor = ''#0066cc'', primaryDark = ''#0052a3'', primaryLight = ''#007af5'',
      primaryHover = ''#005cb8'', dataTheme = None, t_localStorage = store\<rparr>"

section \<open>Properties of the regular expressions\<close>

lemma rx_match_One:
  "rx_match ((One, p) # rest) s = (\<exists>c cs. s = c # cs \<and> p c \<and> rx_match rest cs)"
  by (cases s) simp_all

lemma rx_match_Opt:
  "rx_match ((Opt, p) # rest) s =
     ((\<exists>c cs. s = c # cs \<and> p c \<and> rx_match rest cs) \<or> rx_match rest s)"
  by (cases s) simp_all

lemma rx_match_Plus:
  "rx_match ((Plus, p) # rest) s =
     (\<exists>u v. s = u @ v \<and> u \<noteq> [] \<and> list_all p u \<and> rx_match rest v)"
proof (induction s)
  case Nil
  show ?case by simp
next
  case (Cons c cs)
  show ?case
  proof
    assume "rx_match ((Plus, p) # rest) (c # cs)"
    then have pc: "p c" and alt: "rx_match ((Plus, p) # rest) cs \<or> rx_match rest cs"
      by simp_all
    from alt show "\<exists>u v. c # cs = u @ v \<and> u \<noteq> [] \<and> list_all p u \<and> rx_match rest v"
    proof
      assume "rx_match ((Plus, p) # rest) cs"
      with Cons.IH obtain u v where "cs = u @ v" "list_all p u" "rx_match rest v"
        by blast
      with pc have "c # cs = (c # u) @ v \<and> c # u \<noteq> [] \<and> list_all p (c # u) \<and> rx_match rest v"
        by simp
      then show ?thesis by blast
    next
      assume "rx_match rest cs"
      with pc have "c # cs = [c] @ cs \<and> [c] \<noteq> [] \<and> list_all p [c] \<and> rx_match rest cs"
        by simp
      then show ?thesis by blast
    qed
  next
    assume "\<exists>u v. c # cs = u @ v \<and> u \<noteq> [] \<and> list_all p u \<and> rx_match rest v"
    then obtain u v where uv: "c # cs = u @ v" "u \<noteq> []" "list_all p u" "rx_match rest v"
      by blast
    then obtain u' where u: "u = c # u'" and cs: "cs = u' @ v"
      by (cases u) auto
    from uv(3) u have pc: "p c" and pu': "list_all p u'" by simp_all
    show "rx_match ((Plus, p) # rest) (c # cs)"
    proof (cases "u' = []")
      case True
      with cs uv(4) pc show ?thesis by simp
    next
      case False
      with cs pu' uv(4) have "rx_match ((Plus, p) # rest) cs"
        using Cons.IH by blast
      with pc show ?thesis by simp
    qed
  qed
qed

section \<open>Properties of the colour conversion\<close>

lemma upt16: "[0 ..< 16] = [0, 1, 2, 3, 4, 5, 6, 7, 8, 9, 10, 11, 12, 13, 14, 15 :: nat]"
  by (simp add: upt_rec)

lemma hexval_bound: "js_hexdigit c \<Longrightarrow> 0 \<le> hexval c \<and> hexval c < 16"
  unfolding js_hexdigit_def
  apply (simp only: list.set insert_iff empty_iff)
  apply (elim disjE FalseE)
  apply (simp_all add: hexval_def toLowerCase_char_def upt16)
  done

lemma hexchar_hexval: "js_hexdigit c \<Longrightarrow> hexchar (nat (hexval c)) = toLowerCase_char c"
  unfolding js_hexdigit_def
  apply (simp only: list.set insert_iff empty_iff)
  apply (elim disjE FalseE)
  apply (simp_all add: hexval_def hexchar_def toLowerCase_char_def upt16)
  done

lemma parseInt16_pair:
  "js_hexdigit x \<Longrightarrow> js_hexdigit y \<Longrightarrow> parseInt16 [x, y] = 16 * hexval x + hexval y"
  by (simp add: parseInt16_def)

lemma hexdigits_step:
  "0 < n \<Longrightarrow> d < 16 \<Longrightarrow> hexdigits (16 * n + d) = hexdigits n @ [hexchar d]"
  by (subst hexdigits.simps) simp

lemma hexdigits_one: "hexdigits (Suc 0) = [hexchar 1]"
  by (subst hexdigits.simps) simp

lemma hexdigits_foldl:
  "0 < n \<Longrightarrow> list_all (\<lambda>d. d < 16) vs \<Longrightarrow>
     hexdigits (foldl (\<lambda>a d. 16 * a + d) n vs) = hexdigits n @ map hexchar vs"
proof (induction vs arbitrary: n)
  case Nil
  show ?case by simp
next
  case (Cons v vs)
  from Cons.prems have n: "0 < n" and v: "v < 16" and vs: "list_all (\<lambda>d. d < 16) vs"
    by simp_all
  from n have "0 < 16 * n + v" by simp
  then have "hexdigits (foldl (\<lambda>a d. 16 * a + d) (16 * n + v) vs) =
      hexdigits (16 * n + v) @ map hexchar vs"
    using vs by (rule Cons.IH)
  then show ?case
    by (simp add: hexdigits_step [OF n v])
qed

lemma hexdigits_colour:
  assumes "v1 < 16" "v2 < 16" "v3 < 16" "v4 < 16" "v5 < 16" "v6 < 16"
  shows "hexdigits (16777216 + (16 * v1 + v2) * 65536 + (16 * v3 + v4) * 256 + (16 * v5 + v6)) =
           hexchar 1 # map hexchar [v1, v2, v3, v4, v5, v6]"
proof -
  have "16777216 + (16 * v1 + v2) * 65536 + (16 * v3 + v4) * 256 + (16 * v5 + v6) =
          foldl (\<lambda>a d. 16 * a + d) (Suc 0) [v1, v2, v3, v4, v5, v6]"
    by simp
  moreover have "hexdigits (foldl (\<lambda>a d. 16 * a + d) (Suc 0) [v1, v2, v3, v4, v5, v6]) =
      hexdigits (Suc 0) @ map hexchar [v1, v2, v3, v4, v5, v6]"
    using assms by (intro hexdigits_foldl) simp_all
  ultimately show ?thesis
    by (simp only: hexdigits_one append_Cons append_Nil One_nat_def)
qed

lemma js_shl_small: "0 \<le> x \<Longrightarrow> x * 2 ^ n < 2 ^ 31 \<Longrightarrow> js_shl x n = x * 2 ^ n"
  unfolding js_shl_def
  by (rule signed_take_bit_int_eq_self) (simp_all add: order_trans [of _ 0])

lemma rgbToHex_digits:
  assumes "js_hexdigit h1" "js_hexdigit h2" "js_hexdigit h3"
    "js_hexdigit h4" "js_hexdigit h5" "js_hexdigit h6"
  shows "rgbToHex \<lparr>r = 16 * hexval h1 + hexval h2, g = 16 * hexval h3 + hexval h4,
                   b = 16 * hexval h5 + hexval h6\<rparr> =
           CHR ''#'' # map toLowerCase_char [h1, h2, h3, h4, h5, h6]"
proof -
  define v1 v2 v3 v4 v5 v6 where
    v: "v1 = nat (hexval h1)" "v2 = nat (hexval h2)" "v3 = nat (hexval h3)"
       "v4 = nat (hexval h4)" "v5 = nat (hexval h5)" "v6 = nat (hexval h6)"
  have lt: "v1 < 16" "v2 < 16" "v3 < 16" "v4 < 16" "v5 < 16" "v6 < 16"
    using assms hexval_bound unfolding v by (simp_all add: nat_less_iff)
  have iv: "hexval h1 = int v1" "hexval h2 = int v2" "hexval h3 = int v3"
    "hexval h4 = int v4" "hexval h5 = int v5" "hexval h6 = int v6"
    using assms hexval_bound unfolding v by simp_all
  have s1: "js_shl 1 24 = 16777216"
    by (simp add: js_shl_small)
  have s2: "js_shl (16 * int v1 + int v2) 16 = (16 * int v1 + int v2) * 65536"
    using lt by (simp add: js_shl_small)
  have s3: "js_shl (16 * int v3 + int v4) 8 = (16 * int v3 + int v4) * 256"
    using lt by (simp add: js_shl_small)
  have total: "16777216 + (16 * int v1 + int v2) * 65536 + (16 * int v3 + int v4) * 256
                 + (16 * int v5 + int v6) =
               int (16777216 + (16 * v1 + v2) * 65536 + (16 * v3 + v4) * 256 + (16 * v5 + v6))"
    by simp
  have low: "map hexchar [v1, v2, v3, v4, v5, v6] = map toLowerCase_char [h1, h2, h3, h4, h5, h6]"
    using assms hexchar_hexval unfolding v by simp
  have "rgbToHex \<lparr>r = 16 * int v1 + int v2, g = 16 * int v3 + int v4, b = 16 * int v5 + int v6\<rparr> =
          CHR ''#'' # map hexchar [v1, v2, v3, v4, v5, v6]"
    unfolding rgbToHex_def toString16_def
    by (simp only: rgb.simps s1 s2 s3 total nat_int hexdigits_colour [OF lt]) simp
  then show ?thesis
    by (simp only: iv low)
qed

lemma hex_pattern_iff:
  "rx_match hex_pattern s =
     (\<exists>ds. length ds = 6 \<and> list_all js_hexdigit ds \<and> (s = ds \<or> s = CHR ''#'' # ds))"
proof
  assume "rx_match hex_pattern s"
  then have "(length (tl s) = 6 \<and> list_all js_hexdigit (tl s) \<and> s = CHR ''#'' # tl s) \<or>
      (length s = 6 \<and> list_all js_hexdigit s)"
    unfolding hex_pattern_def rx_match_Opt rx_match_One by auto
  then show "\<exists>ds. length ds = 6 \<and> list_all js_hexdigit ds \<and> (s = ds \<or> s = CHR ''#'' # ds)"
    by blast
next
  assume "\<exists>ds. length ds = 6 \<and> list_all js_hexdigit ds \<and> (s = ds \<or> s = CHR ''#'' # ds)"
  then obtain ds where ds: "length ds = 6" "list_all js_hexdigit ds"
    and s: "s = ds \<or> s = CHR ''#'' # ds"
    by blast
  from ds(1) obtain h1 h2 h3 h4 h5 h6 where "ds = [h1, h2, h3, h4, h5, h6]"
    by (auto simp: length_Suc_conv eval_nat_numeral)
  with ds(2) s show "rx_match hex_pattern s"
    unfolding hex_pattern_def by auto
qed

lemma js_hexdigit_not_hash: "js_hexdigit c \<Longrightarrow> c \<noteq> CHR ''#''"
  unfolding js_hexdigit_def
  apply (simp only: list.set insert_iff empty_iff)
  apply (elim disjE FalseE)
  apply simp_all
  done

lemma hexToRgb_digits:
  assumes "list_all js_hexdigit [h1, h2, h3, h4, h5, h6]"
    and "s = [h1, h2, h3, h4, h5, h6] \<or> s = CHR ''#'' # [h1, h2, h3, h4, h5, h6]"
  shows "hexToRgb s = Some \<lparr>r = 16 * hexval h1 + hexval h2, g = 16 * hexval h3 + hexval h4,
                             b = 16 * hexval h5 + hexval h6\<rparr>"
proof -
  have m: "rx_match hex_pattern s"
    unfolding hex_pattern_iff
    using assms by (intro exI [of _ "[h1, h2, h3, h4, h5, h6]"]) simp
  have nohash: "h1 \<noteq> CHR ''#''"
    using assms(1) by (simp add: js_hexdigit_not_hash)
  from assms(2) show ?thesis
  proof
    assume "s = [h1, h2, h3, h4, h5, h6]"
    with m nohash assms(1) show ?thesis
      by (simp add: hexToRgb_def parseInt16_pair)
  next
    assume "s = CHR ''#'' # [h1, h2, h3, h4, h5, h6]"
    with m assms(1) show ?thesis
      by (simp add: hexToRgb_def parseInt16_pair)
  qed
qed

text \<open>
  Claim C10. For a string \<open>s\<close> made of an optional \<open>#\<close> and exactly six hexadecimal
  digits \<open>ds\<close>, \<open>hexToRgb\<close> returns a colour and \<open>rgbToHex\<close> of that colour is \<open>#\<close>
  followed by the six digits in lower case; for a string \<open>s'\<close> of any other shape
  (three-digit shorthand included) \<open>hexToRgb\<close> returns \<open>null\<close>.
\<close>

theorem hex_rgb_round_trip:
  "(length ds = 6 \<and> list_all js_hexdigit ds \<and> (s = ds \<or> s = CHR ''#'' # ds) \<longrightarrow>
      (\<exists>c. hexToRgb s = Some c \<and> rgbToHex c = CHR ''#'' # map toLowerCase_char ds)) \<and>
   ((\<forall>es. length es = 6 \<and> list_all js_hexdigit es \<longrightarrow> s' \<noteq> es \<and> s' \<noteq> CHR ''#'' # es) \<longrightarrow>
      hexToRgb s' = None)"
proof (intro conjI impI)
  assume a: "length ds = 6 \<and> list_all js_hexdigit ds \<and> (s = ds \<or> s = CHR ''#'' # ds)"
  then obtain h1 h2 h3 h4 h5 h6 where ds: "ds = [h1, h2, h3, h4, h5, h6]"
    by (auto simp: length_Suc_conv eval_nat_numeral)
  from a ds have hx: "list_all js_hexdigit [h1, h2, h3, h4, h5, h6]"
    and s: "s = [h1, h2, h3, h4, h5, h6] \<or> s = CHR ''#'' # [h1, h2, h3, h4, h5, h6]"
    by simp_all
  from hx have each: "js_hexdigit h1" "js_hexdigit h2" "js_hexdigit h3"
    "js_hexdigit h4" "js_hexdigit h5" "js_hexdigit h6"
    by simp_all
  show "\<exists>c. hexToRgb s = Some c \<and> rgbToHex c = CHR ''#'' # map toLowerCase_char ds"
    unfolding ds using hexToRgb_digits [OF hx s] rgbToHex_digits [OF each] by blast
next
  assume "\<forall>es. length es = 6 \<and> list_all js_hexdigit es \<longrightarrow> s' \<noteq> es \<and> s' \<noteq> CHR ''#'' # es"
  then have "\<not> rx_match hex_pattern s'"
    unfolding hex_pattern_iff by blast
  then show "hexToRgb s' = None"
    by (simp add: hexToRgb_def)
qed

theorem hex_rgb_round_trip_witness:
  "(\<exists>c. hexToRgb ''#0066CC'' = Some c \<and> rgbToHex c = ''#0066cc'') \<and> hexToRgb ''#06c'' = None"
proof -
  have h: "\<forall>es. length es = 6 \<and> list_all js_hexdigit es \<longrightarrow>
             ''#06c'' \<noteq> es \<and> ''#06c'' \<noteq> CHR ''#'' # es"
  proof (intro allI impI)
    fix es :: string
    assume "length es = 6 \<and> list_all js_hexdigit es"
    then have "length es \<noteq> 4" and "length es \<noteq> 3" by simp_all
    then show "''#06c'' \<noteq> es \<and> ''#06c'' \<noteq> CHR ''#'' # es" by fastforce
  qed
  show ?thesis
    using hex_rgb_round_trip [of "''0066CC''" "''#0066CC''" "''#06c''"] h
    by (simp add: js_hexdigit_def toLowerCase_char_def)
qed

section \<open>Properties of the field validators\<close>

lemma trim_Nil_iff: "trim s = [] \<longleftrightarrow> list_all js_space s"
proof -
  have "trim s = [] \<longleftrightarrow> (\<forall>x \<in> set (dropWhile js_space s). js_space x)"
    unfolding trim_def by (simp only: rev_is_Nil_conv dropWhile_eq_Nil_conv set_rev)
  also have "\<dots> \<longleftrightarrow> dropWhile js_space s = []"
  proof (cases "dropWhile js_space s")
    case Nil
    show ?thesis unfolding Nil by simp
  next
    case (Cons x xs)
    then have "\<not> js_space x"
      using hd_dropWhile [of js_space s] by simp
    then show ?thesis unfolding Cons by auto
  qed
  also have "\<dots> \<longleftrightarrow> list_all js_space s"
    by (simp only: dropWhile_eq_Nil_conv list_all_iff)
  finally show ?thesis .
qed

lemma email_pattern_iff:
  "rx_match email_pattern e \<longleftrightarrow>
     (\<exists>l d t. e = l @ ''@'' @ d @ ''.'' @ t \<and> l \<noteq> [] \<and> d \<noteq> [] \<and> t \<noteq> [] \<and>
        list_all email_char l \<and> list_all email_char d \<and> list_all email_char t)"
  unfolding email_pattern_def rx_match_Plus rx_match_One rx_match.simps
  apply (intro iffI; elim exE conjE)
  subgoal for u v c cs u2 v2 c2 cs2 u3 v3
    by (intro exI [of _ u] exI [of _ u2] exI [of _ u3]) simp
  subgoal for l d t
    apply (rule exI [of _ l], rule exI [of _ "CHR ''@'' # d @ CHR ''.'' # t"], simp)
    apply (rule exI [of _ d], rule exI [of _ "CHR ''.'' # t"], simp)
    done
  done


lemma space_not_digit: "js_space c \<Longrightarrow> \<not> js_digit c"
  unfolding js_space_def js_digit_def
  by (elim disjE) simp_all

lemma space_not_email_char: "js_space c \<Longrightarrow> \<not> email_char c"
  by (simp add: email_char_def)

lemma trim_id:
  assumes "s \<noteq> []" "\<not> js_space (hd s)" "\<not> js_space (last s)"
  shows "trim s = s"
proof -
  from assms(1,2) have "dropWhile js_space s = s"
    by (cases s) simp_all
  moreover from assms(1,3) have "dropWhile js_space (rev s) = rev s"
    by (cases "rev s") (simp_all add: last_rev [symmetric] hd_rev)
  ultimately show ?thesis
    by (simp add: trim_def)
qed

lemma phone_pattern_iff: "rx_match phone_pattern s \<longleftrightarrow> s \<noteq> [] \<and> list_all phone_char s"
  unfolding phone_pattern_def rx_match_Plus rx_match.simps by auto

lemma email_shape_match:
  assumes "l \<noteq> []" "d \<noteq> []" "t \<noteq> []" "list_all email_char (l @ d @ t)"
  shows "rx_match email_pattern (l @ ''@'' @ d @ ''.'' @ t)"
  unfolding email_pattern_iff using assms by (intro exI [of _ l] exI [of _ d] exI [of _ t]) simp

lemma email_shape_trim:
  assumes "l \<noteq> []" "d \<noteq> []" "t \<noteq> []" "list_all email_char (l @ d @ t)"
  shows "trim (l @ ''@'' @ d @ ''.'' @ t) = l @ ''@'' @ d @ ''.'' @ t"
proof (rule trim_id)
  show "l @ ''@'' @ d @ ''.'' @ t \<noteq> []" using assms by simp
  from assms have "email_char (hd l)" "email_char (last t)"
    by (simp_all add: list_all_iff)
  then have "\<not> js_space (hd l)" "\<not> js_space (last t)"
    by (simp_all add: email_char_def)
  with assms show "\<not> js_space (hd (l @ ''@'' @ d @ ''.'' @ t))"
    "\<not> js_space (last (l @ ''@'' @ d @ ''.'' @ t))"
    by simp_all
qed

lemma email_pattern_not_blank:
  assumes "rx_match email_pattern e"
  shows "e \<noteq> []" and "trim e \<noteq> []"
proof -
  from assms obtain l d t where e: "e = l @ ''@'' @ d @ ''.'' @ t" and l: "l \<noteq> []"
    and cs: "list_all email_char l"
    unfolding email_pattern_iff by blast
  from l cs have "email_char (hd l)"
    by (cases l) simp_all
  then have "\<not> js_space (hd l)"
    by (simp add: email_char_def)
  moreover from l e have "hd l \<in> set e"
    by (cases l) simp_all
  ultimately have "\<not> list_all js_space e"
    by (auto simp: list_all_iff)
  then show "trim e \<noteq> []"
    by (simp add: trim_Nil_iff)
  from e show "e \<noteq> []"
    by simp
qed

lemma validateEmail_valid_iff:
  "isValid (validateEmail e) \<longleftrightarrow> rx_match email_pattern e"
  using email_pattern_not_blank [of e] by (auto simp: validateEmail_def)

lemma ticket_validateEmail_valid_iff:
  "fst (ticket_validateEmail st) \<longleftrightarrow> rx_match email_pattern (trim (emailInput st))"
  using email_pattern_not_blank(1) [of "trim (emailInput st)"]
  by (auto simp: ticket_validateEmail_def Let_def)

text \<open>
  Claim C6, as amended. \<open>FormValidator.validateEmail\<close> answers the empty string and
  every input made of whitespace only with the required message \<open>Email is required\<close>,
  not the format message; it accepts \<open>a@b.co\<close> and rejects \<open>not-an-email\<close> with the
  format message; it accepts every input of the shape local-part \<open>@\<close> domain \<open>.\<close> tld
  whose three parts are not empty and hold neither whitespace nor \<open>@\<close>, accepts nothing
  else, and answers every other input that is not blank with the format message.
  \<open>TicketManager.validateEmail\<close> tests the trimmed value of its input against the same
  pattern: it reports a missing e-mail with its own required message
  \<open>Please enter your email\<close>, accepts exactly the inputs whose trimmed value has that
  shape, and marks every other input that is not blank with the format message; so it
  accepts \<open>a@b.co\<close> and rejects \<open>not-an-email\<close>.
\<close>

theorem validateEmail_spec:
  "(e = [] \<or> list_all js_space e \<longrightarrow>
      validateEmail e = \<lparr>isValid = False, message = ''Email is required''\<rparr>) \<and>
   validateEmail ''a@b.co'' = \<lparr>isValid = True, message = []\<rparr> \<and>
   validateEmail ''not-an-email'' =
     \<lparr>isValid = False, message = ''Please enter a valid email address''\<rparr> \<and>
   (l \<noteq> [] \<and> d \<noteq> [] \<and> t \<noteq> [] \<and> list_all email_char (l @ d @ t) \<longrightarrow>
      validateEmail (l @ ''@'' @ d @ ''.'' @ t) = \<lparr>isValid = True, message = []\<rparr>) \<and>
   (emailInput st = [] \<or> list_all js_space (emailInput st) \<longrightarrow>
      ticket_validateEmail st = (False, showError Email ''Please enter your email'' st)) \<and>
   (l \<noteq> [] \<and> d \<noteq> [] \<and> t \<noteq> [] \<and> list_all email_char (l @ d @ t) \<and>
    emailInput st = l @ ''@'' @ d @ ''.'' @ t \<longrightarrow>
      ticket_validateEmail st = (True, st)) \<and>
   (isValid (validateEmail e) \<longleftrightarrow>
      (\<exists>l d t. e = l @ ''@'' @ d @ ''.'' @ t \<and> l \<noteq> [] \<and> d \<noteq> [] \<and> t \<noteq> [] \<and>
         list_all email_char l \<and> list_all email_char d \<and> list_all email_char t)) \<and>
   (e \<noteq> [] \<and> \<not> list_all js_space e \<and> \<not> isValid (validateEmail e) \<longrightarrow>
      validateEmail e =
        \<lparr>isValid = False, message = ''Please enter a valid email address''\<rparr>) \<and>
   (fst (ticket_validateEmail st) \<longleftrightarrow>
      (\<exists>l d t. trim (emailInput st) = l @ ''@'' @ d @ ''.'' @ t \<and>
         l \<noteq> [] \<and> d \<noteq> [] \<and> t \<noteq> [] \<and>
         list_all email_char l \<and> list_all email_char d \<and> list_all email_char t)) \<and>
   (fst (ticket_validateEmail st) \<longrightarrow> ticket_validateEmail st = (True, st)) \<and>
   (\<not> list_all js_space (emailInput st) \<and> \<not> fst (ticket_validateEmail st) \<longrightarrow>
      ticket_validateEmail st =
        (False, showError Email ''Please enter a valid email address'' st)) \<and>
   (emailInput st = ''a@b.co'' \<longrightarrow> ticket_validateEmail st = (True, st)) \<and>
   (emailInput st = ''not-an-email'' \<longrightarrow>
      ticket_validateEmail st =
        (False, showError Email ''Please enter a valid email address'' st))"
proof (intro conjI impI)
  assume "e = [] \<or> list_all js_space e"
  then have "e = [] \<or> trim e = []"
    by (simp add: trim_Nil_iff)
  then show "validateEmail e = \<lparr>isValid = False, message = ''Email is required''\<rparr>"
    by (simp add: validateEmail_def)
next
  show "validateEmail ''a@b.co'' = \<lparr>isValid = True, message = []\<rparr>"
    by (simp add: validateEmail_def trim_def js_space_def email_pattern_def email_char_def)
next
  show "validateEmail ''not-an-email'' =
     \<lparr>isValid = False, message = ''Please enter a valid email address''\<rparr>"
    by (simp add: validateEmail_def trim_def js_space_def email_pattern_def email_char_def)
next
  assume a: "l \<noteq> [] \<and> d \<noteq> [] \<and> t \<noteq> [] \<and> list_all email_char (l @ d @ t)"
  then have "rx_match email_pattern (l @ ''@'' @ d @ ''.'' @ t)"
    and "trim (l @ ''@'' @ d @ ''.'' @ t) = l @ ''@'' @ d @ ''.'' @ t"
    using email_shape_match [of l d t] email_shape_trim [of l d t] by blast+
  with a show "validateEmail (l @ ''@'' @ d @ ''.'' @ t) = \<lparr>isValid = True, message = []\<rparr>"
    by (simp add: validateEmail_def)
next
  assume "emailInput st = [] \<or> list_all js_space (emailInput st)"
  then have "trim (emailInput st) = []"
    by (auto simp: trim_Nil_iff)
  then show "ticket_validateEmail st = (False, showError Email ''Please enter your email'' st)"
    by (simp add: ticket_validateEmail_def)
next
  assume a: "l \<noteq> [] \<and> d \<noteq> [] \<and> t \<noteq> [] \<and> list_all email_char (l @ d @ t) \<and>
    emailInput st = l @ ''@'' @ d @ ''.'' @ t"
  then have "rx_match email_pattern (l @ ''@'' @ d @ ''.'' @ t)"
    and "trim (l @ ''@'' @ d @ ''.'' @ t) = l @ ''@'' @ d @ ''.'' @ t"
    using email_shape_match [of l d t] email_shape_trim [of l d t] by blast+
  with a show "ticket_validateEmail st = (True, st)"
    by (simp add: ticket_validateEmail_def)
next
  show "isValid (validateEmail e) \<longleftrightarrow>
      (\<exists>l d t. e = l @ ''@'' @ d @ ''.'' @ t \<and> l \<noteq> [] \<and> d \<noteq> [] \<and> t \<noteq> [] \<and>
         list_all email_char l \<and> list_all email_char d \<and> list_all email_char t)"
    by (simp only: validateEmail_valid_iff email_pattern_iff)
next
  assume "e \<noteq> [] \<and> \<not> list_all js_space e \<and> \<not> isValid (validateEmail e)"
  then show "validateEmail e =
        \<lparr>isValid = False, message = ''Please enter a valid email address''\<rparr>"
    by (simp add: validateEmail_def trim_Nil_iff split: if_splits)
next
  show "fst (ticket_validateEmail st) \<longleftrightarrow>
      (\<exists>l d t. trim (emailInput st) = l @ ''@'' @ d @ ''.'' @ t \<and>
         l \<noteq> [] \<and> d \<noteq> [] \<and> t \<noteq> [] \<and>
         list_all email_char l \<and> list_all email_char d \<and> list_all email_char t)"
    by (simp only: ticket_validateEmail_valid_iff email_pattern_iff)
next
  assume "fst (ticket_validateEmail st)"
  then show "ticket_validateEmail st = (True, st)"
    by (simp add: ticket_validateEmail_def Let_def split: if_splits)
next
  assume "\<not> list_all js_space (emailInput st) \<and> \<not> fst (ticket_validateEmail st)"
  then show "ticket_validateEmail st =
        (False, showError Email ''Please enter a valid email address'' st)"
    by (simp add: ticket_validateEmail_def Let_def trim_Nil_iff split: if_splits)
next
  assume "emailInput st = ''a@b.co''"
  then show "ticket_validateEmail st = (True, st)"
    by (simp add: ticket_validateEmail_def trim_def js_space_def email_pattern_def
        email_char_def)
next
  assume "emailInput st = ''not-an-email''"
  then show "ticket_validateEmail st =
        (False, showError Email ''Please enter a valid email address'' st)"
    by (simp add: ticket_validateEmail_def trim_def js_space_def email_pattern_def
        email_char_def)
qed

theorem validateEmail_spec_witness:
  "validateEmail ''   '' = \<lparr>isValid = False, message = ''Email is required''\<rparr> \<and>
   validateEmail ''jane@x.com'' = \<lparr>isValid = True, message = []\<rparr> \<and>
   fst (ticket_validateEmail (blank_ticket_form\<lparr>emailInput := ''  ''\<rparr>)) = False \<and>
   fst (ticket_validateEmail (blank_ticket_form\<lparr>emailInput := ''jane@x.com''\<rparr>)) = True \<and>
   ticket_validateEmail (blank_ticket_form\<lparr>emailInput := ''not-an-email''\<rparr>) =
     (False, showError Email ''Please enter a valid email address''
               (blank_ticket_form\<lparr>emailInput := ''not-an-email''\<rparr>)) \<and>
   ticket_validateEmail (blank_ticket_form\<lparr>emailInput := ''a@b.co''\<rparr>) =
     (True, blank_ticket_form\<lparr>emailInput := ''a@b.co''\<rparr>)"
proof -
  note jane = validateEmail_spec [of "''   ''" "''jane''" "''x''" "''com''"
      "blank_ticket_form\<lparr>emailInput := ''jane@x.com''\<rparr>"]
  note blank = validateEmail_spec [of "''   ''" "''jane''" "''x''" "''com''"
      "blank_ticket_form\<lparr>emailInput := ''  ''\<rparr>"]
  note malformed = validateEmail_spec [of "''   ''" "''jane''" "''x''" "''com''"
      "blank_ticket_form\<lparr>emailInput := ''not-an-email''\<rparr>"]
  note short = validateEmail_spec [of "''   ''" "''jane''" "''x''" "''com''"
      "blank_ticket_form\<lparr>emailInput := ''a@b.co''\<rparr>"]
  have "validateEmail ''   '' = \<lparr>isValid = False, message = ''Email is required''\<rparr>"
    using jane [THEN conjunct1] by (simp add: js_space_def)
  moreover have "validateEmail ''jane@x.com'' = \<lparr>isValid = True, message = []\<rparr>"
    using jane [THEN conjunct2, THEN conjunct2, THEN conjunct2, THEN conjunct1]
    by (simp add: js_space_def email_char_def)
  moreover have "fst (ticket_validateEmail (blank_ticket_form\<lparr>emailInput := ''  ''\<rparr>)) = False"
    using blank [THEN conjunct2, THEN conjunct2, THEN conjunct2, THEN conjunct2, THEN conjunct1]
    by (simp add: js_space_def)
  moreover have
    "fst (ticket_validateEmail (blank_ticket_form\<lparr>emailInput := ''jane@x.com''\<rparr>)) = True"
    using jane [THEN conjunct2, THEN conjunct2, THEN conjunct2, THEN conjunct2, THEN conjunct2,
        THEN conjunct1]
    by (simp add: js_space_def email_char_def)
  moreover have "ticket_validateEmail (blank_ticket_form\<lparr>emailInput := ''not-an-email''\<rparr>) =
     (False, showError Email ''Please enter a valid email address''
               (blank_ticket_form\<lparr>emailInput := ''not-an-email''\<rparr>))"
    using malformed [THEN conjunct2, THEN conjunct2, THEN conjunct2, THEN conjunct2,
        THEN conjunct2, THEN conjunct2, THEN conjunct2, THEN conjunct2, THEN conjunct2,
        THEN conjunct2, THEN conjunct2, THEN conjunct2]
    by simp
  moreover have "ticket_validateEmail (blank_ticket_form\<lparr>emailInput := ''a@b.co''\<rparr>) =
     (True, blank_ticket_form\<lparr>emailInput := ''a@b.co''\<rparr>)"
    using short [THEN conjunct2, THEN conjunct2, THEN conjunct2, THEN conjunct2,
        THEN conjunct2, THEN conjunct2, THEN conjunct2, THEN conjunct2, THEN conjunct2,
        THEN conjunct2, THEN conjunct2, THEN conjunct1]
    by simp
  ultimately show ?thesis
    by (simp only: simp_thms)
qed

text \<open>
  Claim C6 as stated gives \<open>Email is required\<close> as the message for an empty input.
  \<open>TicketManager.validateEmail\<close> shows \<open>Please enter your email\<close> there. And a dot
  somewhere after the \<open>@\<close> is not enough for an input without whitespace to be valid:
  \<open>a@b.\<close> and \<open>a@.b\<close> are rejected, because the pattern wants a character on each side
  of the dot.
\<close>

theorem ticket_email_required_counterexample:
  "errors (snd (ticket_validateEmail blank_ticket_form)) Email =
     Some ''Please enter your email'' \<and>
   ''Please enter your email'' \<noteq> ''Email is required'' \<and>
   \<not> isValid (validateEmail ''a@b.'') \<and> \<not> isValid (validateEmail ''a@.b'') \<and>
   \<not> fst (ticket_validateEmail (blank_ticket_form\<lparr>emailInput := ''a@b.''\<rparr>))"
  by (simp add: ticket_validateEmail_def blank_ticket_form_def showError_def validateEmail_def
      trim_def js_space_def email_pattern_def email_char_def)

text \<open>
  Claim C9, as amended. For a non-empty input \<open>validatePhone\<close> returns invalid exactly
  when fewer than ten digits remain after the non-digits are stripped, or when the
  input holds a character that is neither a digit, nor a whitespace character (the
  class \<open>\s\<close>: space, tab, line breaks, no-break space), nor a parenthesis, nor a hyphen;
  for an empty or whitespace-only input it returns invalid with the required message.
\<close>

theorem validatePhone_spec:
  "(phone \<noteq> [] \<longrightarrow>
      (\<not> isValid (validatePhone phone)) =
        (length (filter js_digit phone) < 10 \<or>
         (\<exists>c \<in> set phone. \<not> js_digit c \<and> \<not> js_space c \<and> c \<notin> set ''()-''))) \<and>
   (phone = [] \<or> list_all js_space phone \<longrightarrow>
      validatePhone phone = \<lparr>isValid = False, message = ''Phone number is required''\<rparr>)"
proof (intro conjI impI)
  assume ne: "phone \<noteq> []"
  have cls: "list_all phone_char phone \<longleftrightarrow>
      \<not> (\<exists>c \<in> set phone. \<not> js_digit c \<and> \<not> js_space c \<and> c \<notin> set ''()-'')"
    by (auto simp: list_all_iff phone_char_def)
  show "(\<not> isValid (validatePhone phone)) =
        (length (filter js_digit phone) < 10 \<or>
         (\<exists>c \<in> set phone. \<not> js_digit c \<and> \<not> js_space c \<and> c \<notin> set ''()-''))"
  proof (cases "trim phone = []")
    case True
    then have "list_all js_space phone" by (simp add: trim_Nil_iff)
    then have "filter js_digit phone = []"
      by (simp add: filter_empty_conv list_all_iff space_not_digit)
    with True show ?thesis
      by (simp add: validatePhone_def)
  next
    case False
    with ne cls show ?thesis
      by (simp add: validatePhone_def phone_pattern_iff Let_def)
  qed
next
  assume "phone = [] \<or> list_all js_space phone"
  then have "phone = [] \<or> trim phone = []"
    by (simp add: trim_Nil_iff)
  then show "validatePhone phone = \<lparr>isValid = False, message = ''Phone number is required''\<rparr>"
    by (simp add: validatePhone_def)
qed

theorem validatePhone_spec_witness:
  "\<not> isValid (validatePhone ''555-1234'') \<and> isValid (validatePhone ''(555) 123-4567'') \<and>
   validatePhone '' '' = \<lparr>isValid = False, message = ''Phone number is required''\<rparr>"
  using validatePhone_spec [of "''555-1234''"] validatePhone_spec [of "''(555) 123-4567''"]
    validatePhone_spec [of "'' ''"]
  by (simp add: js_digit_def js_space_def)

text \<open>
  Claim C9 as stated allows the space as the only blank character. The pattern has
  \<open>\s\<close>, so ten digits followed by a tab are valid although the tab is none of digit,
  space, parenthesis or hyphen.
\<close>

theorem validatePhone_tab_counterexample:
  "isValid (validatePhone (''1234567890'' @ [CHR 0x09])) \<and>
   CHR 0x09 \<in> set (''1234567890'' @ [CHR 0x09]) \<and>
   CHR 0x09 \<notin> set ''0123456789 ()-''"
  by (simp add: validatePhone_def trim_def js_space_def js_digit_def phone_pattern_def
      phone_char_def)


section \<open>Properties of the number conversion\<close>

text \<open>
  A text made of decimal digits converts to the number its digits write, and to the
  negative of it after a minus sign; so among such amounts exactly those written with
  zeros only, and all those with a minus sign, are at most 0.
\<close>

lemma digit_cases:
  assumes "js_digit c"
  shows "c \<notin> set ''bBoOxX+-.eEI''" and "\<not> js_space c" and "0 \<le> digitval c"
    and "digitval c = 0 \<longleftrightarrow> c = CHR ''0''"
  using assms unfolding js_digit_def
  by (simp only: list.set insert_iff empty_iff; elim disjE FalseE;
      simp add: js_space_def digitval_def upt_rec)+

lemma digits_value_zero:
  assumes "list_all js_digit ds" "0 \<le> a"
  shows "0 \<le> foldl (\<lambda>a c. 10 * a + digitval c) a ds"
    and "foldl (\<lambda>a c. 10 * a + digitval c) a ds = 0 \<longleftrightarrow>
      a = 0 \<and> list_all (\<lambda>c. c = CHR ''0'') ds"
  using assms
proof (induction ds arbitrary: a)
  case Nil
  {
    case 1 then show ?case by simp
  next
    case 2 then show ?case by simp
  }
next
  case (Cons c cs)
  {
    case 1
    then have "js_digit c" "list_all js_digit cs" by simp_all
    with 1 have "0 \<le> 10 * a + digitval c"
      using digit_cases(3) [of c] by simp
    with Cons.IH(1) [of "10 * a + digitval c"] \<open>list_all js_digit cs\<close> show ?case
      by simp
  next
    case 2
    then have c: "js_digit c" and cs: "list_all js_digit cs" by simp_all
    with 2 have nn: "0 \<le> 10 * a + digitval c"
      using digit_cases(3) [of c] by simp
    have "10 * a + digitval c = 0 \<longleftrightarrow> a = 0 \<and> c = CHR ''0''"
      using digit_cases(3,4) [OF c] 2(2) by auto
    with Cons.IH(2) [OF cs nn] show ?case
      by auto
  }
qed

lemma StringToNumber_digits:
  assumes "ds \<noteq> []" "list_all js_digit ds"
  shows "StringToNumber ds = Decimal False (foldl (\<lambda>a c. 10 * a + digitval c) 0 ds) 0"
    and "StringToNumber (CHR ''-'' # ds) =
      Decimal True (foldl (\<lambda>a c. 10 * a + digitval c) 0 ds) 0"
proof -
  from assms have hd: "js_digit (hd ds)" and last: "js_digit (last ds)"
    by (simp_all add: list_all_iff)
  have tk: "takeWhile js_digit ds = ds" "dropWhile js_digit ds = []"
    using assms(2) by (simp_all add: list_all_iff)
  have inf: "ds \<noteq> ''Infinity''"
    using hd digit_cases(1) [of "hd ds"] by auto
  have dec: "unsigned_decimal neg ds =
      Decimal neg (foldl (\<lambda>a c. 10 * a + digitval c) 0 ds) 0" for neg
    using assms(1) inf by (simp add: unsigned_decimal_def tk exponent_part_def)
  have tr: "trim ds = ds"
    using assms(1) hd last digit_cases(2) by (intro trim_id) simp_all
  have rad: "radix_literal ds = None"
  proof (cases ds)
    case Nil
    then show ?thesis by (simp add: radix_literal_def)
  next
    case (Cons z zs)
    show ?thesis
    proof (cases zs)
      case Nil
      with Cons show ?thesis by (simp add: radix_literal_def)
    next
      case (Cons x xs)
      with \<open>ds = z # zs\<close> assms(2) have "js_digit x" by simp
      then have "x \<notin> set ''bBoOxX+-.eEI''" by (rule digit_cases(1))
      with Cons \<open>ds = z # zs\<close> show ?thesis
        by (simp add: radix_literal_def)
    qed
  qed
  have sign: "hd ds \<noteq> CHR ''-''" "hd ds \<noteq> CHR ''+''"
    using digit_cases(1) [OF hd] by simp_all
  from assms(1) obtain c cs where ds: "ds = c # cs"
    by (cases ds) simp_all
  have "StringToNumber ds = unsigned_decimal False ds"
    unfolding StringToNumber_def tr rad Let_def using sign by (simp add: ds)
  then show "StringToNumber ds =
      Decimal False (foldl (\<lambda>a c. 10 * a + digitval c) 0 ds) 0"
    by (simp only: dec)
  have trm: "trim (CHR ''-'' # ds) = CHR ''-'' # ds"
    using assms(1) last digit_cases(2) by (intro trim_id) (simp_all add: js_space_def)
  have radm: "radix_literal (CHR ''-'' # ds) = None"
    by (cases ds) (simp_all add: radix_literal_def)
  show "StringToNumber (CHR ''-'' # ds) =
      Decimal True (foldl (\<lambda>a c. 10 * a + digitval c) 0 ds) 0"
    by (simp add: StringToNumber_def trm radm dec)
qed

lemma le_zero_digits:
  assumes "ds \<noteq> []" "list_all js_digit ds"
  shows "le_zero (StringToNumber ds) \<longleftrightarrow> list_all (\<lambda>c. c = CHR ''0'') ds"
    and "le_zero (StringToNumber (CHR ''-'' # ds))"
  using digits_value_zero(2) [OF assms(2), of 0]
  by (simp_all add: StringToNumber_digits [OF assms] le_zero_def rounds_to_zero_def)

text \<open>The conversion on some texts, one for each form of numeral and some that are none.\<close>

lemma StringToNumber_examples:
  "StringToNumber ''abc'' = NaN"
  "StringToNumber ''-0.5'' = Decimal True 5 (- 1)"
  "StringToNumber ''12.50'' = Decimal False 1250 (- 2)"
  "StringToNumber '' '' = Decimal False 0 0"
  "StringToNumber '' 7 '' = Decimal False 7 0"
  "StringToNumber ''0x1F'' = Decimal False 31 0"
  "StringToNumber ''0b101'' = Decimal False 5 0"
  "StringToNumber ''0o17'' = Decimal False 15 0"
  "StringToNumber ''-0x10'' = NaN"
  "StringToNumber ''1e3'' = Decimal False 1 3"
  "StringToNumber ''2.5E-3'' = Decimal False 25 (- 4)"
  "StringToNumber ''.5'' = Decimal False 5 (- 1)"
  "StringToNumber ''5.'' = Decimal False 5 0"
  "StringToNumber ''.'' = NaN"
  "StringToNumber ''1e'' = NaN"
  "StringToNumber ''1,5'' = NaN"
  "StringToNumber ''$5'' = NaN"
  "StringToNumber ''1 2'' = NaN"
  "StringToNumber ''+-1'' = NaN"
  "StringToNumber ''+Infinity'' = Infinity False"
  "StringToNumber ''-Infinity'' = Infinity True"
  "StringToNumber ''infinity'' = NaN"
  by code_simp+

lemma le_zero_examples:
  "\<not> le_zero (StringToNumber ''abc'')"
  "le_zero (StringToNumber ''-0.5'')"
  "\<not> le_zero (StringToNumber ''12.50'')"
  "le_zero (StringToNumber ''0'')"
  "le_zero (StringToNumber '' '')"
  "le_zero (StringToNumber ''0.00'')"
  "\<not> le_zero (StringToNumber ''0x1F'')"
  "\<not> le_zero (StringToNumber ''1e3'')"
  "\<not> le_zero (StringToNumber ''Infinity'')"
  "le_zero (StringToNumber ''-Infinity'')"
  "le_zero (StringToNumber ''2e-324'')"
  "\<not> le_zero (StringToNumber ''3e-324'')"
  by code_simp+

section \<open>Properties of the form submission\<close>

lemma showError_if:
  "(if ok then st else showError f m st) =
     st\<lparr>errors := (errors st)(f := if ok then errors st f else Some m)\<rparr>"
  by (simp add: showError_def)

lemma validateName_shape:
  "\<exists>ok m. \<forall>st. nameInput st = v \<longrightarrow>
     validateName st = (ok, st\<lparr>errors := (errors st)(Name := if ok then errors st Name else Some m)\<rparr>)"
  apply (rule exI [of _ "trim v \<noteq> [] \<and> \<not> length (trim v) < 2"])
  apply (rule exI [of _ "if trim v = [] then ''Please enter your name''
                          else ''Name must be at least 2 characters''"])
  apply (simp add: validateName_def showError_def Let_def)
  done

lemma ticket_validateEmail_shape:
  "\<exists>ok m. \<forall>st. emailInput st = v \<longrightarrow>
     ticket_validateEmail st =
       (ok, st\<lparr>errors := (errors st)(Email := if ok then errors st Email else Some m)\<rparr>)"
  apply (rule exI [of _ "trim v \<noteq> [] \<and> rx_match email_pattern (trim v)"])
  apply (rule exI [of _ "if trim v = [] then ''Please enter your email''
                          else ''Please enter a valid email address''"])
  apply (simp add: ticket_validateEmail_def showError_def Let_def)
  done

lemma validateCategory_shape:
  "\<exists>ok m. \<forall>st. categorySelect st = v \<longrightarrow>
     validateCategory st =
       (ok, st\<lparr>errors := (errors st)(Category := if ok then errors st Category else Some m)\<rparr>)"
  apply (rule exI [of _ "v \<noteq> []"])
  apply (rule exI [of _ "''Please select a category''"])
  apply (simp add: validateCategory_def showError_def)
  done

lemma validatePriority_shape:
  "\<exists>ok m. \<forall>st. prioritySelect st = v \<longrightarrow>
     validatePriority st =
       (ok, st\<lparr>errors := (errors st)(Priority := if ok then errors st Priority else Some m)\<rparr>)"
  apply (rule exI [of _ "v \<noteq> []"])
  apply (rule exI [of _ "''Please select a priority level''"])
  apply (simp add: validatePriority_def showError_def)
  done

lemma validateSubject_shape:
  "\<exists>ok m. \<forall>st. subjectInput st = v \<longrightarrow>
     validateSubject st =
       (ok, st\<lparr>errors := (errors st)(Subject := if ok then errors st Subject else Some m)\<rparr>)"
  apply (rule exI [of _ "trim v \<noteq> [] \<and> \<not> length (trim v) < 5"])
  apply (rule exI [of _ "if trim v = [] then ''Please enter a subject''
                          else ''Subject must be at least 5 characters''"])
  apply (simp add: validateSubject_def showError_def Let_def)
  done

lemma validateDescription_shape:
  "\<exists>ok m. \<forall>st. descriptionTextarea st = v \<longrightarrow>
     validateDescription st =
       (ok, st\<lparr>errors := (errors st)(Description := if ok then errors st Description else Some m)\<rparr>)"
  apply (rule exI [of _ "trim v \<noteq> [] \<and> \<not> length (trim v) < 20 \<and> \<not> length (trim v) > 1000"])
  apply (rule exI [of _ "if trim v = [] then ''Please describe your issue''
                          else if length (trim v) < 20
                          then ''Please provide more details (at least 20 characters)''
                          else ''Description is too long (max 1000 characters)''"])
  apply (simp add: validateDescription_def showError_def Let_def)
  done


lemma all_ticket_fields:
  "(\<forall>f. P f) = (P Name \<and> P Email \<and> P Category \<and> P Priority \<and> P Subject \<and> P Description)"
proof
  assume r: "P Name \<and> P Email \<and> P Category \<and> P Priority \<and> P Subject \<and> P Description"
  show "\<forall>f. P f"
  proof
    fix f show "P f" using r by (cases f) simp_all
  qed
qed simp

lemma ticket_handleSubmit_eq:
  "ticket_handleSubmit submit clk st =
     (if \<forall>f. fst (validateField f st)
      then (let data = \<lparr>td_name = trim (nameInput st), td_email = trim (emailInput st),
                        td_category = categorySelect st, td_priority = prioritySelect st,
                        td_subject = trim (subjectInput st),
                        td_description = trim (descriptionTextarea st),
                        td_file = fileInput st, td_timestamp = now_iso clk\<rparr>;
                st7 = st\<lparr>loading := True, submitted := submitted st @ [data]\<rparr>
            in case submit data of
                 Resolves \<Rightarrow>
                   st7\<lparr>toasts := show_toast
                          (''Ticket #'' @ generateTicketNumber clk @ '' created! We'' @ [CHR 0x27]
                             @ ''ll email you soon at '' @ td_email data)
                          ''success'' 6000 (toasts st7),
                        nameInput := [], emailInput := [], categorySelect := [],
                        prioritySelect := [], subjectInput := [], descriptionTextarea := [],
                        fileInput := None, modalActive := False, loading := False\<rparr>
               | Rejects \<Rightarrow>
                   st7\<lparr>toasts := show_toast
                          ''Failed to submit ticket. Please try again or email us directly.''
                          ''error'' 4000 (toasts st7),
                        loading := False\<rparr>)
      else st\<lparr>errors := (\<lambda>f. errors (snd (validateField f st)) f),
              toasts := show_toast ''Please fix the errors in the form'' ''error'' 4000
                          (toasts st)\<rparr>)"
proof -
  obtain ok1 m1 where v1: "\<And>s. nameInput s = nameInput st \<Longrightarrow> validateName s =
      (ok1, s\<lparr>errors := (errors s)(Name := if ok1 then errors s Name else Some m1)\<rparr>)"
    using validateName_shape [of "nameInput st"] by blast
  obtain ok2 m2 where v2: "\<And>s. emailInput s = emailInput st \<Longrightarrow> ticket_validateEmail s =
      (ok2, s\<lparr>errors := (errors s)(Email := if ok2 then errors s Email else Some m2)\<rparr>)"
    using ticket_validateEmail_shape [of "emailInput st"] by blast
  obtain ok3 m3 where v3: "\<And>s. categorySelect s = categorySelect st \<Longrightarrow> validateCategory s =
      (ok3, s\<lparr>errors := (errors s)(Category := if ok3 then errors s Category else Some m3)\<rparr>)"
    using validateCategory_shape [of "categorySelect st"] by blast
  obtain ok4 m4 where v4: "\<And>s. prioritySelect s = prioritySelect st \<Longrightarrow> validatePriority s =
      (ok4, s\<lparr>errors := (errors s)(Priority := if ok4 then errors s Priority else Some m4)\<rparr>)"
    using validatePriority_shape [of "prioritySelect st"] by blast
  obtain ok5 m5 where v5: "\<And>s. subjectInput s = subjectInput st \<Longrightarrow> validateSubject s =
      (ok5, s\<lparr>errors := (errors s)(Subject := if ok5 then errors s Subject else Some m5)\<rparr>)"
    using validateSubject_shape [of "subjectInput st"] by blast
  obtain ok6 m6 where v6: "\<And>s. descriptionTextarea s = descriptionTextarea st \<Longrightarrow>
      validateDescription s =
      (ok6, s\<lparr>errors := (errors s)(Description := if ok6 then errors s Description else Some m6)\<rparr>)"
    using validateDescription_shape [of "descriptionTextarea st"] by blast
  define s1 where "s1 = st\<lparr>errors := (errors st)(Name := if ok1 then errors st Name else Some m1)\<rparr>"
  define s2 where "s2 = s1\<lparr>errors := (errors s1)(Email := if ok2 then errors s1 Email else Some m2)\<rparr>"
  define s3 where "s3 = s2\<lparr>errors := (errors s2)(Category := if ok3 then errors s2 Category else Some m3)\<rparr>"
  define s4 where "s4 = s3\<lparr>errors := (errors s3)(Priority := if ok4 then errors s3 Priority else Some m4)\<rparr>"
  define s5 where "s5 = s4\<lparr>errors := (errors s4)(Subject := if ok5 then errors s4 Subject else Some m5)\<rparr>"
  define s6 where "s6 = s5\<lparr>errors := (errors s5)(Description := if ok6 then errors s5 Description else Some m6)\<rparr>"
  note defs = s1_def s2_def s3_def s4_def s5_def s6_def
  have c1: "validateName st = (ok1, s1)"
    unfolding s1_def by (rule v1) simp
  have c2: "ticket_validateEmail s1 = (ok2, s2)"
    unfolding s2_def by (rule v2) (simp add: s1_def)
  have c3: "validateCategory s2 = (ok3, s3)"
    unfolding s3_def by (rule v3) (simp add: s1_def s2_def)
  have c4: "validatePriority s3 = (ok4, s4)"
    unfolding s4_def by (rule v4) (simp add: s1_def s2_def s3_def)
  have c5: "validateSubject s4 = (ok5, s5)"
    unfolding s5_def by (rule v5) (simp add: s1_def s2_def s3_def s4_def)
  have c6: "validateDescription s5 = (ok6, s6)"
    unfolding s6_def by (rule v6) (simp add: s1_def s2_def s3_def s4_def s5_def)
  have oks: "(\<forall>f. fst (validateField f st)) = (ok1 \<and> ok2 \<and> ok3 \<and> ok4 \<and> ok5 \<and> ok6)"
    unfolding all_ticket_fields by (simp add: validateField_def v1 v2 v3 v4 v5 v6)
  have errs: "errors s6 = (\<lambda>f. errors (snd (validateField f st)) f)"
  proof
    fix f show "errors s6 f = errors (snd (validateField f st)) f"
      by (cases f) (simp_all add: validateField_def v1 v2 v3 v4 v5 v6 defs)
  qed
  have frame: "s6 = st\<lparr>errors := errors s6\<rparr>"
    by (simp add: defs)
  have run: "ticket_handleSubmit submit clk st =
     (if \<not> (ok1 \<and> ok2 \<and> ok3 \<and> ok4 \<and> ok5 \<and> ok6)
      then s6\<lparr>toasts := show_toast ''Please fix the errors in the form'' ''error'' 4000
                            (toasts s6)\<rparr>
      else (let data = \<lparr>td_name = trim (nameInput s6), td_email = trim (emailInput s6),
                        td_category = categorySelect s6, td_priority = prioritySelect s6,
                        td_subject = trim (subjectInput s6),
                        td_description = trim (descriptionTextarea s6),
                        td_file = fileInput s6, td_timestamp = now_iso clk\<rparr>;
                st7 = s6\<lparr>loading := True, submitted := submitted s6 @ [data]\<rparr>
            in case submit data of
                 Resolves \<Rightarrow>
                   st7\<lparr>toasts := show_toast
                          (''Ticket #'' @ generateTicketNumber clk @ '' created! We'' @ [CHR 0x27]
                             @ ''ll email you soon at '' @ td_email data)
                          ''success'' 6000 (toasts st7),
                        nameInput := [], emailInput := [], categorySelect := [],
                        prioritySelect := [], subjectInput := [], descriptionTextarea := [],
                        fileInput := None, modalActive := False, loading := False\<rparr>
               | Rejects \<Rightarrow>
                   st7\<lparr>toasts := show_toast
                          ''Failed to submit ticket. Please try again or email us directly.''
                          ''error'' 4000 (toasts st7),
                        loading := False\<rparr>))"
    unfolding ticket_handleSubmit_def c1 c2 c3 c4 c5 c6 Let_def prod.case
    by (simp only: list.pred_inject simp_thms)
  show ?thesis
  proof (cases "ok1 \<and> ok2 \<and> ok3 \<and> ok4 \<and> ok5 \<and> ok6")
    case True
    then have "s6 = st"
      by (simp add: defs)
    with True show ?thesis
      unfolding run oks by (simp only: simp_thms if_True if_False)
  next
    case False
    then have ne: "(ok1 \<and> ok2 \<and> ok3 \<and> ok4 \<and> ok5 \<and> ok6) = False"
      by simp
    have s6: "s6 = st\<lparr>errors := (\<lambda>f. errors (snd (validateField f st)) f)\<rparr>"
      using frame errs by simp
    have "ticket_handleSubmit submit clk st =
        s6\<lparr>toasts := show_toast ''Please fix the errors in the form'' ''error'' 4000 (toasts s6)\<rparr>"
      unfolding run ne by (simp only: simp_thms if_True)
    also have "\<dots> = st\<lparr>errors := (\<lambda>f. errors (snd (validateField f st)) f),
              toasts := show_toast ''Please fix the errors in the form'' ''error'' 4000
                          (toasts st)\<rparr>"
      by (subst (1 2) s6) simp
    finally show ?thesis
      unfolding oks ne by (simp only: if_False)
  qed
qed


lemma ticket_handleSubmit_invalid:
  assumes "\<not> (\<forall>f. fst (validateField f st))"
  shows "ticket_handleSubmit submit clk st =
      st\<lparr>errors := (\<lambda>f. errors (snd (validateField f st)) f),
         toasts := show_toast ''Please fix the errors in the form'' ''error'' 4000 (toasts st)\<rparr>"
  using assms by (simp only: ticket_handleSubmit_eq if_False)

lemma ticket_handleSubmit_rejected:
  assumes "\<forall>f. fst (validateField f st)" "\<forall>data. submit data = Rejects"
  shows "ticket_handleSubmit submit clk st =
      st\<lparr>loading := False,
         submitted := submitted st @
           [\<lparr>td_name = trim (nameInput st), td_email = trim (emailInput st),
             td_category = categorySelect st, td_priority = prioritySelect st,
             td_subject = trim (subjectInput st),
             td_description = trim (descriptionTextarea st),
             td_file = fileInput st, td_timestamp = now_iso clk\<rparr>],
         toasts := show_toast
           ''Failed to submit ticket. Please try again or email us directly.''
           ''error'' 4000 (toasts st)\<rparr>"
  using assms by (simp only: ticket_handleSubmit_eq if_True Let_def settle.case) simp

lemma validator_keeps_errors_elsewhere:
  "fst (validateField f st) \<Longrightarrow> snd (validateField f st) = st"
  by (cases f)
    (simp_all add: validateField_def validateName_def ticket_validateEmail_def
      validateCategory_def validatePriority_def validateSubject_def validateDescription_def
      Let_def split: if_splits)

lemma failing_validator_marks:
  "\<not> fst (validateField f st) \<Longrightarrow> errors (snd (validateField f st)) f \<noteq> None"
  by (cases f)
    (simp_all add: validateField_def validateName_def ticket_validateEmail_def
      validateCategory_def validatePriority_def validateSubject_def validateDescription_def
      showError_def Let_def split: if_splits)

lemma donation_handleSubmit_missing:
  assumes "donorName d = [] \<or> donorEmail d = []"
  shows "donation_handleSubmit process d =
    Returns (d\<lparr>d_toasts := show_toast ''Please fill in all required fields'' ''error'' 4000
                              (d_toasts d)\<rparr>)"
  using assms by (simp add: donation_handleSubmit_def)

lemma donation_handleSubmit_no_amount:
  assumes "donorName d \<noteq> []" "donorEmail d \<noteq> []"
    and "(customAmount d = [] \<and> (\<forall>n. selectedAmount d = Some n \<longrightarrow> n \<le> 0)) \<or>
         (customAmount d \<noteq> [] \<and> le_zero (StringToNumber (customAmount d)))"
  shows "donation_handleSubmit process d =
    Returns (d\<lparr>d_toasts := show_toast ''Please select or enter a donation amount'' ''error'' 4000
                              (d_toasts d)\<rparr>)"
  using assms by (cases "selectedAmount d") (auto simp: donation_handleSubmit_def Let_def)

lemma donation_handleSubmit_sent:
  assumes "donorName d \<noteq> []" "donorEmail d \<noteq> []"
    and "\<not> (customAmount d = [] \<and> (\<forall>n. selectedAmount d = Some n \<longrightarrow> n \<le> 0))"
    and "\<not> (customAmount d \<noteq> [] \<and> le_zero (StringToNumber (customAmount d)))"
  shows "\<exists>d'. donation_handleSubmit process d = Returns d' \<and>
    d_submitted d' = d_submitted d @
      [\<lparr>dd_name = donorName d, dd_email = donorEmail d,
        dd_amount = (if customAmount d \<noteq> [] then AmountText (customAmount d)
                     else case selectedAmount d of Some n \<Rightarrow> AmountNumber n
                          | None \<Rightarrow> AmountNone),
        dd_frequency = selectedFrequency d, dd_anonymous = anonymousChecked d,
        dd_featured = featuredChecked d, dd_partner = partnerChecked d\<rparr>]"
  using assms
  by (cases "selectedAmount d")
    (auto simp: donation_handleSubmit_def Let_def split: settle.splits)

text \<open>
  Claim C4, as amended. When at least one field of the ticket form is invalid,
  \<open>handleSubmit\<close> leaves each failing field with the error of its validator, shows the
  one toast \<open>Please fix the errors in the form\<close>, and returns without calling
  \<open>submitTicket\<close> and without touching the submit button. The donation form has no
  field validators and marks no field. Its \<open>handleSubmit\<close> shows one error toast and
  returns without calling \<open>processDonation\<close>, nothing else changed, when the name or
  the e-mail is empty, and otherwise when the amount fails the test of the source:
  no custom amount is entered and the selected amount is missing or at most 0, or the
  custom amount entered, converted to a number, is at most 0. In every other case it
  calls \<open>processDonation\<close> with the values of the form: neither the format of the
  e-mail nor whether the custom amount is a numeral at all is looked at. Among the
  custom amounts written with decimal digits, those with zeros only are refused, and
  so is every one after a minus sign; a blank text and \<open>-0.5\<close> are refused, while
  \<open>12.50\<close> and \<open>abc\<close>, which converts to \<open>NaN\<close>, are sent.
\<close>

theorem invalid_form_is_not_submitted:
  "((\<exists>f. \<not> fst (validateField f st)) \<longrightarrow>
      (\<forall>f. \<not> fst (validateField f st) \<longrightarrow>
         errors (ticket_handleSubmit submit clk st) f = errors (snd (validateField f st)) f \<and>
         errors (ticket_handleSubmit submit clk st) f \<noteq> None) \<and>
      toasts (ticket_handleSubmit submit clk st) =
        toasts st @ [\<lparr>toast_message = ''Please fix the errors in the form'',
                       toast_type = ''error'', toast_duration = 4000\<rparr>] \<and>
      submitted (ticket_handleSubmit submit clk st) = submitted st \<and>
      loading (ticket_handleSubmit submit clk st) = loading st) \<and>
   (donorName d = [] \<or> donorEmail d = [] \<or>
    (customAmount d = [] \<and> (\<forall>n. selectedAmount d = Some n \<longrightarrow> n \<le> 0)) \<or>
    (customAmount d \<noteq> [] \<and> le_zero (StringToNumber (customAmount d))) \<longrightarrow>
      donation_handleSubmit process d =
        Returns (d\<lparr>d_toasts := d_toasts d @
          [\<lparr>toast_message =
              (if donorName d = [] \<or> donorEmail d = []
               then ''Please fill in all required fields''
               else ''Please select or enter a donation amount''),
            toast_type = ''error'', toast_duration = 4000\<rparr>]\<rparr>)) \<and>
   (\<not> (donorName d = [] \<or> donorEmail d = [] \<or>
       (customAmount d = [] \<and> (\<forall>n. selectedAmount d = Some n \<longrightarrow> n \<le> 0)) \<or>
       (customAmount d \<noteq> [] \<and> le_zero (StringToNumber (customAmount d)))) \<longrightarrow>
      (\<exists>d'. donation_handleSubmit process d = Returns d' \<and>
         d_submitted d' = d_submitted d @
           [\<lparr>dd_name = donorName d, dd_email = donorEmail d,
             dd_amount = (if customAmount d \<noteq> [] then AmountText (customAmount d)
                          else case selectedAmount d of Some n \<Rightarrow> AmountNumber n
                               | None \<Rightarrow> AmountNone),
             dd_frequency = selectedFrequency d, dd_anonymous = anonymousChecked d,
             dd_featured = featuredChecked d, dd_partner = partnerChecked d\<rparr>])) \<and>
   (ds \<noteq> [] \<and> list_all js_digit ds \<longrightarrow>
      (le_zero (StringToNumber ds) \<longleftrightarrow> list_all (\<lambda>c. c = CHR ''0'') ds) \<and>
      le_zero (StringToNumber (CHR ''-'' # ds))) \<and>
   le_zero (StringToNumber '' '') \<and> le_zero (StringToNumber ''-0.5'') \<and>
   \<not> le_zero (StringToNumber ''12.50'') \<and> \<not> le_zero (StringToNumber ''abc'')"
proof (intro conjI impI)
  assume inv: "\<exists>f. \<not> fst (validateField f st)"
  then have "\<not> (\<forall>f. fst (validateField f st))"
    by blast
  then have eq: "ticket_handleSubmit submit clk st =
      st\<lparr>errors := (\<lambda>f. errors (snd (validateField f st)) f),
         toasts := show_toast ''Please fix the errors in the form'' ''error'' 4000 (toasts st)\<rparr>"
    by (rule ticket_handleSubmit_invalid)
  show "\<forall>f. \<not> fst (validateField f st) \<longrightarrow>
         errors (ticket_handleSubmit submit clk st) f = errors (snd (validateField f st)) f \<and>
         errors (ticket_handleSubmit submit clk st) f \<noteq> None"
    unfolding eq by (simp add: failing_validator_marks)
  show "toasts (ticket_handleSubmit submit clk st) =
        toasts st @ [\<lparr>toast_message = ''Please fix the errors in the form'',
                       toast_type = ''error'', toast_duration = 4000\<rparr>]"
    unfolding eq by (simp add: show_toast_def)
  show "submitted (ticket_handleSubmit submit clk st) = submitted st"
    unfolding eq by simp
  show "loading (ticket_handleSubmit submit clk st) = loading st"
    unfolding eq by simp
next
  assume a: "donorName d = [] \<or> donorEmail d = [] \<or>
    (customAmount d = [] \<and> (\<forall>n. selectedAmount d = Some n \<longrightarrow> n \<le> 0)) \<or>
    (customAmount d \<noteq> [] \<and> le_zero (StringToNumber (customAmount d)))"
  show "donation_handleSubmit process d =
        Returns (d\<lparr>d_toasts := d_toasts d @
          [\<lparr>toast_message =
              (if donorName d = [] \<or> donorEmail d = []
               then ''Please fill in all required fields''
               else ''Please select or enter a donation amount''),
            toast_type = ''error'', toast_duration = 4000\<rparr>]\<rparr>)"
  proof (cases "donorName d = [] \<or> donorEmail d = []")
    case True
    then show ?thesis
      by (simp add: donation_handleSubmit_missing show_toast_def)
  next
    case False
    with a show ?thesis
      by (simp add: donation_handleSubmit_no_amount show_toast_def)
  qed
next
  assume "\<not> (donorName d = [] \<or> donorEmail d = [] \<or>
       (customAmount d = [] \<and> (\<forall>n. selectedAmount d = Some n \<longrightarrow> n \<le> 0)) \<or>
       (customAmount d \<noteq> [] \<and> le_zero (StringToNumber (customAmount d))))"
  then have "donorName d \<noteq> []" "donorEmail d \<noteq> []"
    "\<not> (customAmount d = [] \<and> (\<forall>n. selectedAmount d = Some n \<longrightarrow> n \<le> 0))"
    "\<not> (customAmount d \<noteq> [] \<and> le_zero (StringToNumber (customAmount d)))"
    by blast+
  then show "\<exists>d'. donation_handleSubmit process d = Returns d' \<and>
         d_submitted d' = d_submitted d @
           [\<lparr>dd_name = donorName d, dd_email = donorEmail d,
             dd_amount = (if customAmount d \<noteq> [] then AmountText (customAmount d)
                          else case selectedAmount d of Some n \<Rightarrow> AmountNumber n
                               | None \<Rightarrow> AmountNone),
             dd_frequency = selectedFrequency d, dd_anonymous = anonymousChecked d,
             dd_featured = featuredChecked d, dd_partner = partnerChecked d\<rparr>]"
    by (rule donation_handleSubmit_sent)
next
  assume "ds \<noteq> [] \<and> list_all js_digit ds"
  then show "le_zero (StringToNumber ds) \<longleftrightarrow> list_all (\<lambda>c. c = CHR ''0'') ds"
    and "le_zero (StringToNumber (CHR ''-'' # ds))"
    by (simp_all add: le_zero_digits)
qed (simp_all add: le_zero_examples)


lemma scenario_fields:
  "validateField Name scenario_ticket_form =
     (False, showError Name ''Name must be at least 2 characters'' scenario_ticket_form)"
  "validateField Email scenario_ticket_form =
     (False, showError Email ''Please enter a valid email address'' scenario_ticket_form)"
  "validateField Subject scenario_ticket_form =
     (False, showError Subject ''Please enter a subject'' scenario_ticket_form)"
  by (simp_all add: validateField_def validateName_def ticket_validateEmail_def
      validateSubject_def scenario_ticket_form_def blank_ticket_form_def trim_def js_space_def
      email_pattern_def email_char_def)

theorem invalid_form_is_not_submitted_witness:
  "errors (ticket_handleSubmit submitTicket example_clock scenario_ticket_form) Name =
     Some ''Name must be at least 2 characters'' \<and>
   errors (ticket_handleSubmit submitTicket example_clock scenario_ticket_form) Email =
     Some ''Please enter a valid email address'' \<and>
   errors (ticket_handleSubmit submitTicket example_clock scenario_ticket_form) Subject =
     Some ''Please enter a subject'' \<and>
   toasts (ticket_handleSubmit submitTicket example_clock scenario_ticket_form) =
     [\<lparr>toast_message = ''Please fix the errors in the form'', toast_type = ''error'',
       toast_duration = 4000\<rparr>] \<and>
   submitted (ticket_handleSubmit submitTicket example_clock scenario_ticket_form) = [] \<and>
   donation_handleSubmit processDonation new_DonationManager =
     Returns (new_DonationManager\<lparr>d_toasts :=
       [\<lparr>toast_message = ''Please fill in all required fields'', toast_type = ''error'',
         toast_duration = 4000\<rparr>]\<rparr>) \<and>
   donation_handleSubmit processDonation
       (new_DonationManager\<lparr>donorName := ''Jane'', donorEmail := ''jane@x.com'',
          customAmount := ''-0.5''\<rparr>) =
     Returns (new_DonationManager\<lparr>donorName := ''Jane'', donorEmail := ''jane@x.com'',
       customAmount := ''-0.5'', d_toasts :=
       [\<lparr>toast_message = ''Please select or enter a donation amount'', toast_type = ''error'',
         toast_duration = 4000\<rparr>]\<rparr>) \<and>
   (\<exists>d'. donation_handleSubmit processDonation
            (new_DonationManager\<lparr>donorName := ''Jane'', donorEmail := ''jane@x.com'',
               customAmount := ''abc''\<rparr>) = Returns d' \<and>
         d_submitted d' =
           [\<lparr>dd_name = ''Jane'', dd_email = ''jane@x.com'', dd_amount = AmountText ''abc'',
             dd_frequency = ''monthly'', dd_anonymous = False, dd_featured = False,
             dd_partner = False\<rparr>]) \<and>
   le_zero (StringToNumber ''0'') \<and> le_zero (StringToNumber ''-0'')"
proof -
  have inv: "\<exists>f. \<not> fst (validateField f scenario_ticket_form)"
    by (rule exI [of _ Name]) (simp add: scenario_fields)
  have empty: "toasts scenario_ticket_form = []" "submitted scenario_ticket_form = []"
    by (simp_all add: scenario_ticket_form_def blank_ticket_form_def)
  have ticket: "errors (ticket_handleSubmit submitTicket example_clock scenario_ticket_form) Name =
     Some ''Name must be at least 2 characters'' \<and>
   errors (ticket_handleSubmit submitTicket example_clock scenario_ticket_form) Email =
     Some ''Please enter a valid email address'' \<and>
   errors (ticket_handleSubmit submitTicket example_clock scenario_ticket_form) Subject =
     Some ''Please enter a subject'' \<and>
   toasts (ticket_handleSubmit submitTicket example_clock scenario_ticket_form) =
     [\<lparr>toast_message = ''Please fix the errors in the form'', toast_type = ''error'',
       toast_duration = 4000\<rparr>] \<and>
   submitted (ticket_handleSubmit submitTicket example_clock scenario_ticket_form) = []"
    using invalid_form_is_not_submitted
      [of scenario_ticket_form submitTicket example_clock new_DonationManager processDonation
        "''0''"]
      inv empty
    by (simp add: scenario_fields showError_def)
  have blank: "donation_handleSubmit processDonation new_DonationManager =
     Returns (new_DonationManager\<lparr>d_toasts :=
       [\<lparr>toast_message = ''Please fill in all required fields'', toast_type = ''error'',
         toast_duration = 4000\<rparr>]\<rparr>)"
    using invalid_form_is_not_submitted
      [of scenario_ticket_form submitTicket example_clock new_DonationManager processDonation
        "''0''"]
    by (simp add: new_DonationManager_def)
  have negative: "donation_handleSubmit processDonation
       (new_DonationManager\<lparr>donorName := ''Jane'', donorEmail := ''jane@x.com'',
          customAmount := ''-0.5''\<rparr>) =
     Returns (new_DonationManager\<lparr>donorName := ''Jane'', donorEmail := ''jane@x.com'',
       customAmount := ''-0.5'', d_toasts :=
       [\<lparr>toast_message = ''Please select or enter a donation amount'', toast_type = ''error'',
         toast_duration = 4000\<rparr>]\<rparr>)"
    using invalid_form_is_not_submitted
      [of scenario_ticket_form submitTicket example_clock
        "new_DonationManager\<lparr>donorName := ''Jane'', donorEmail := ''jane@x.com'',
           customAmount := ''-0.5''\<rparr>" processDonation "''0''"]
    by (simp add: new_DonationManager_def le_zero_examples)
  have no_numeral: "\<exists>d'. donation_handleSubmit processDonation
            (new_DonationManager\<lparr>donorName := ''Jane'', donorEmail := ''jane@x.com'',
               customAmount := ''abc''\<rparr>) = Returns d' \<and>
         d_submitted d' =
           [\<lparr>dd_name = ''Jane'', dd_email = ''jane@x.com'', dd_amount = AmountText ''abc'',
             dd_frequency = ''monthly'', dd_anonymous = False, dd_featured = False,
             dd_partner = False\<rparr>]"
    using invalid_form_is_not_submitted
      [of scenario_ticket_form submitTicket example_clock
        "new_DonationManager\<lparr>donorName := ''Jane'', donorEmail := ''jane@x.com'',
           customAmount := ''abc''\<rparr>" processDonation "''0''"]
    by (simp add: new_DonationManager_def le_zero_examples)
  have zero: "le_zero (StringToNumber ''0'') \<and> le_zero (StringToNumber ''-0'')"
    using invalid_form_is_not_submitted
      [of scenario_ticket_form submitTicket example_clock new_DonationManager processDonation
        "''0''"]
    by (simp add: js_digit_def)
  from ticket blank negative no_numeral zero show ?thesis
    by (simp only: simp_thms)
qed

text \<open>
  Claim C4 as stated includes a donation whose e-mail has an invalid format. The
  donation form only asks for the e-mail not to be empty: with the name \<open>Jane\<close>, the
  e-mail \<open>bad\<close> and the preset amount, \<open>processDonation\<close> is called and the success
  toast is shown.
\<close>

theorem donation_bad_email_counterexample:
  "\<not> isValid (validateEmail ''bad'') \<and>
   donation_handleSubmit processDonation
       (new_DonationManager\<lparr>donorName := ''Jane'', donorEmail := ''bad''\<rparr>) =
     Returns (new_DonationManager
       \<lparr>d_toasts := [\<lparr>toast_message = ''Thank you for your monthly donation of $25! You''
                         @ [CHR 0x27] @ ''re changing lives. '',
                       toast_type = ''success'', toast_duration = 6000\<rparr>],
        d_submitted := [\<lparr>dd_name = ''Jane'', dd_email = ''bad'', dd_amount = AmountNumber 25,
                          dd_frequency = ''monthly'', dd_anonymous = False,
                          dd_featured = False, dd_partner = False\<rparr>]\<rparr>)"
  by (simp add: validateEmail_def trim_def js_space_def email_pattern_def email_char_def
      donation_handleSubmit_def new_DonationManager_def processDonation_def show_toast_def
      amount_text_def show_int_def decdigits.simps decchar_def)

lemma ticket_handleSubmit_order:
  "errors (ticket_handleSubmit submit clk st) =
     errors (snd (validateDescription (snd (validateSubject (snd (validatePriority
       (snd (validateCategory (snd (ticket_validateEmail (snd (validateName st))))))))))))"
  by (simp add: ticket_handleSubmit_def Let_def split_def split: settle.splits)

text \<open>
  Claim C5, as amended. On the ticket form the six validators run one after the other
  in the declared order (name, e-mail, category, priority, subject, description), each
  on the submitted values, whatever the others found: after \<open>handleSubmit\<close> the error
  display of each field is the one its own validator gives on the form as submitted,
  and every failing field shows an error. The donation form has no field validators:
  \<open>handleSubmit\<close> looks at name and e-mail first and returns there when one is
  empty, whatever the amount is.
\<close>

theorem ticket_validators_all_run:
  "errors (ticket_handleSubmit submit clk st) =
     errors (snd (validateDescription (snd (validateSubject (snd (validatePriority
       (snd (validateCategory (snd (ticket_validateEmail (snd (validateName st)))))))))))) \<and>
   (\<forall>f. errors (ticket_handleSubmit submit clk st) f = errors (snd (validateField f st)) f \<and>
        (\<not> fst (validateField f st) \<longrightarrow> errors (ticket_handleSubmit submit clk st) f \<noteq> None)) \<and>
   (donorName d = [] \<or> donorEmail d = [] \<longrightarrow>
      donation_handleSubmit process d =
        Returns (d\<lparr>d_toasts := d_toasts d @
          [\<lparr>toast_message = ''Please fill in all required fields'', toast_type = ''error'',
            toast_duration = 4000\<rparr>]\<rparr>))"
proof (intro conjI impI allI)
  show "errors (ticket_handleSubmit submit clk st) =
     errors (snd (validateDescription (snd (validateSubject (snd (validatePriority
       (snd (validateCategory (snd (ticket_validateEmail (snd (validateName st))))))))))))"
    by (rule ticket_handleSubmit_order)
next
  fix f
  show "errors (ticket_handleSubmit submit clk st) f = errors (snd (validateField f st)) f"
  proof (cases "\<forall>f. fst (validateField f st)")
    case True
    then have "snd (validateField f st) = st"
      by (simp add: validator_keeps_errors_elsewhere)
    moreover have "errors (ticket_handleSubmit submit clk st) = errors st"
      using True by (simp add: ticket_handleSubmit_eq Let_def split: settle.splits)
    ultimately show ?thesis by simp
  next
    case False
    then show ?thesis
      by (simp add: ticket_handleSubmit_invalid)
  qed
next
  fix f
  assume bad: "\<not> fst (validateField f st)"
  then have "\<not> (\<forall>f. fst (validateField f st))"
    by blast
  then show "errors (ticket_handleSubmit submit clk st) f \<noteq> None"
    using bad by (simp add: ticket_handleSubmit_invalid failing_validator_marks)
next
  assume "donorName d = [] \<or> donorEmail d = []"
  then show "donation_handleSubmit process d =
        Returns (d\<lparr>d_toasts := d_toasts d @
          [\<lparr>toast_message = ''Please fill in all required fields'', toast_type = ''error'',
            toast_duration = 4000\<rparr>]\<rparr>)"
    by (simp add: donation_handleSubmit_missing show_toast_def)
qed

theorem ticket_validators_all_run_witness:
  "errors (ticket_handleSubmit submitTicket example_clock scenario_ticket_form) Name =
     Some ''Name must be at least 2 characters'' \<and>
   errors (ticket_handleSubmit submitTicket example_clock scenario_ticket_form) Subject =
     Some ''Please enter a subject'' \<and>
   donation_handleSubmit processDonation (new_DonationManager\<lparr>selectedAmount := None\<rparr>) =
     Returns (new_DonationManager\<lparr>selectedAmount := None, d_toasts :=
       [\<lparr>toast_message = ''Please fill in all required fields'', toast_type = ''error'',
         toast_duration = 4000\<rparr>]\<rparr>)"
  using ticket_validators_all_run
    [of submitTicket example_clock scenario_ticket_form
      "new_DonationManager\<lparr>selectedAmount := None\<rparr>" processDonation, THEN conjunct2]
  by (simp add: scenario_fields showError_def new_DonationManager_def)

text \<open>
  Claim C5 as stated extends the policy to the donation form. A donation with neither
  name nor e-mail nor amount is answered with the toast about the required fields
  only; the missing amount is reported once name and e-mail are there.
\<close>

theorem donation_short_circuit_counterexample:
  "donation_handleSubmit processDonation (new_DonationManager\<lparr>selectedAmount := None\<rparr>) =
     Returns (new_DonationManager\<lparr>selectedAmount := None, d_toasts :=
       [\<lparr>toast_message = ''Please fill in all required fields'', toast_type = ''error'',
         toast_duration = 4000\<rparr>]\<rparr>) \<and>
   donation_handleSubmit processDonation
       (new_DonationManager\<lparr>donorName := ''Jane'', donorEmail := ''jane@x.com'',
          selectedAmount := None\<rparr>) =
     Returns (new_DonationManager\<lparr>donorName := ''Jane'', donorEmail := ''jane@x.com'',
       selectedAmount := None, d_toasts :=
       [\<lparr>toast_message = ''Please select or enter a donation amount'', toast_type = ''error'',
         toast_duration = 4000\<rparr>]\<rparr>)"
  by (simp add: donation_handleSubmit_def new_DonationManager_def show_toast_def)

lemma donation_handleSubmit_rejecting:
  assumes "donorName d \<noteq> []" "donorEmail d \<noteq> []"
    and "\<not> (customAmount d = [] \<and> (\<forall>n. selectedAmount d = Some n \<longrightarrow> n \<le> 0))"
    and "\<not> (customAmount d \<noteq> [] \<and> le_zero (StringToNumber (customAmount d)))"
    and "\<forall>data. process data = Rejects"
  shows "donation_handleSubmit process d =
    Returns (d\<lparr>d_loading := False,
               d_submitted := d_submitted d @
                 [\<lparr>dd_name = donorName d, dd_email = donorEmail d,
                   dd_amount = (if customAmount d \<noteq> [] then AmountText (customAmount d)
                                else case selectedAmount d of Some n \<Rightarrow> AmountNumber n
                                     | None \<Rightarrow> AmountNone),
                   dd_frequency = selectedFrequency d, dd_anonymous = anonymousChecked d,
                   dd_featured = featuredChecked d, dd_partner = partnerChecked d\<rparr>],
               d_toasts := show_toast ''Payment failed. Please try again.'' ''error'' 4000
                             (d_toasts d)\<rparr>)"
  using assms
  by (cases "selectedAmount d") (auto simp: donation_handleSubmit_def Let_def)

lemma donation_handleSubmit_keeps_fields:
  assumes "\<forall>data. process data = Rejects"
  shows "\<exists>d'. donation_handleSubmit process d = Returns d' \<and>
    donorName d' = donorName d \<and> donorEmail d' = donorEmail d \<and>
    customAmount d' = customAmount d \<and> selectedAmount d' = selectedAmount d \<and>
    selectedFrequency d' = selectedFrequency d \<and>
    anonymousChecked d' = anonymousChecked d \<and> featuredChecked d' = featuredChecked d \<and>
    partnerChecked d' = partnerChecked d"
  using assms by (simp add: donation_handleSubmit_def Let_def)

text \<open>
  Claim C8. When the operation a form awaits rejects, \<open>handleSubmit\<close> shows one error
  toast that asks to try again, frees the submit button, and leaves every control of
  the form with the value it had: for the ticket form whenever all its fields are
  valid (which is when \<open>submitTicket\<close> is called); for the donation form whenever name
  and e-mail are there and the amount passes the test of the source (which is when
  \<open>processDonation\<close> is called), whatever the custom amount is. With an operation
  that rejects, \<open>handleSubmit\<close> of the donation form returns and keeps the value of
  every control for every state of the form.
\<close>

theorem rejected_submit_keeps_input:
  "((\<forall>f. fst (validateField f st)) \<and> (\<forall>data. submit data = Rejects) \<longrightarrow>
      toasts (ticket_handleSubmit submit clk st) =
        toasts st @ [\<lparr>toast_message =
                        ''Failed to submit ticket. Please try again or email us directly.'',
                       toast_type = ''error'', toast_duration = 4000\<rparr>] \<and>
      loading (ticket_handleSubmit submit clk st) = False \<and>
      nameInput (ticket_handleSubmit submit clk st) = nameInput st \<and>
      emailInput (ticket_handleSubmit submit clk st) = emailInput st \<and>
      categorySelect (ticket_handleSubmit submit clk st) = categorySelect st \<and>
      prioritySelect (ticket_handleSubmit submit clk st) = prioritySelect st \<and>
      subjectInput (ticket_handleSubmit submit clk st) = subjectInput st \<and>
      descriptionTextarea (ticket_handleSubmit submit clk st) = descriptionTextarea st \<and>
      fileInput (ticket_handleSubmit submit clk st) = fileInput st \<and>
      length (submitted (ticket_handleSubmit submit clk st)) = Suc (length (submitted st))) \<and>
   ((\<forall>data. process data = Rejects) \<longrightarrow>
      (\<exists>d'. donation_handleSubmit process d = Returns d' \<and>
         donorName d' = donorName d \<and> donorEmail d' = donorEmail d \<and>
         customAmount d' = customAmount d \<and> selectedAmount d' = selectedAmount d \<and>
         selectedFrequency d' = selectedFrequency d \<and>
         anonymousChecked d' = anonymousChecked d \<and> featuredChecked d' = featuredChecked d \<and>
         partnerChecked d' = partnerChecked d \<and>
         (donorName d \<noteq> [] \<and> donorEmail d \<noteq> [] \<and>
          \<not> (customAmount d = [] \<and> (\<forall>n. selectedAmount d = Some n \<longrightarrow> n \<le> 0)) \<and>
          \<not> (customAmount d \<noteq> [] \<and> le_zero (StringToNumber (customAmount d))) \<longrightarrow>
            d_toasts d' = d_toasts d @ [\<lparr>toast_message = ''Payment failed. Please try again.'',
                                          toast_type = ''error'', toast_duration = 4000\<rparr>] \<and>
            d_loading d' = False \<and>
            d_submitted d' = d_submitted d @
              [\<lparr>dd_name = donorName d, dd_email = donorEmail d,
                dd_amount = (if customAmount d \<noteq> [] then AmountText (customAmount d)
                             else case selectedAmount d of Some n \<Rightarrow> AmountNumber n
                                  | None \<Rightarrow> AmountNone),
                dd_frequency = selectedFrequency d, dd_anonymous = anonymousChecked d,
                dd_featured = featuredChecked d, dd_partner = partnerChecked d\<rparr>])))"
proof (intro conjI impI)
  assume rej: "\<forall>data. process data = Rejects"
  then obtain d' where run: "donation_handleSubmit process d = Returns d'"
    and keeps: "donorName d' = donorName d" "donorEmail d' = donorEmail d"
      "customAmount d' = customAmount d" "selectedAmount d' = selectedAmount d"
      "selectedFrequency d' = selectedFrequency d"
      "anonymousChecked d' = anonymousChecked d" "featuredChecked d' = featuredChecked d"
      "partnerChecked d' = partnerChecked d"
    using donation_handleSubmit_keeps_fields [of process d] by blast
  have "d_toasts d' = d_toasts d @ [\<lparr>toast_message = ''Payment failed. Please try again.'',
                                     toast_type = ''error'', toast_duration = 4000\<rparr>] \<and>
        d_loading d' = False \<and>
        d_submitted d' = d_submitted d @
          [\<lparr>dd_name = donorName d, dd_email = donorEmail d,
            dd_amount = (if customAmount d \<noteq> [] then AmountText (customAmount d)
                         else case selectedAmount d of Some n \<Rightarrow> AmountNumber n
                              | None \<Rightarrow> AmountNone),
            dd_frequency = selectedFrequency d, dd_anonymous = anonymousChecked d,
            dd_featured = featuredChecked d, dd_partner = partnerChecked d\<rparr>]"
    if called: "donorName d \<noteq> [] \<and> donorEmail d \<noteq> [] \<and>
          \<not> (customAmount d = [] \<and> (\<forall>n. selectedAmount d = Some n \<longrightarrow> n \<le> 0)) \<and>
          \<not> (customAmount d \<noteq> [] \<and> le_zero (StringToNumber (customAmount d)))"
  proof -
    from called rej have "donation_handleSubmit process d =
      Returns (d\<lparr>d_loading := False,
               d_submitted := d_submitted d @
                 [\<lparr>dd_name = donorName d, dd_email = donorEmail d,
                   dd_amount = (if customAmount d \<noteq> [] then AmountText (customAmount d)
                                else case selectedAmount d of Some n \<Rightarrow> AmountNumber n
                                     | None \<Rightarrow> AmountNone),
                   dd_frequency = selectedFrequency d, dd_anonymous = anonymousChecked d,
                   dd_featured = featuredChecked d, dd_partner = partnerChecked d\<rparr>],
               d_toasts := show_toast ''Payment failed. Please try again.'' ''error'' 4000
                             (d_toasts d)\<rparr>)"
      by (intro donation_handleSubmit_rejecting) blast+
    with run have "d' = d\<lparr>d_loading := False,
               d_submitted := d_submitted d @
                 [\<lparr>dd_name = donorName d, dd_email = donorEmail d,
                   dd_amount = (if customAmount d \<noteq> [] then AmountText (customAmount d)
                                else case selectedAmount d of Some n \<Rightarrow> AmountNumber n
                                     | None \<Rightarrow> AmountNone),
                   dd_frequency = selectedFrequency d, dd_anonymous = anonymousChecked d,
                   dd_featured = featuredChecked d, dd_partner = partnerChecked d\<rparr>],
               d_toasts := show_toast ''Payment failed. Please try again.'' ''error'' 4000
                             (d_toasts d)\<rparr>"
      by simp
    then show ?thesis
      by (simp add: show_toast_def)
  qed
  with run keeps show "\<exists>d'. donation_handleSubmit process d = Returns d' \<and>
         donorName d' = donorName d \<and> donorEmail d' = donorEmail d \<and>
         customAmount d' = customAmount d \<and> selectedAmount d' = selectedAmount d \<and>
         selectedFrequency d' = selectedFrequency d \<and>
         anonymousChecked d' = anonymousChecked d \<and> featuredChecked d' = featuredChecked d \<and>
         partnerChecked d' = partnerChecked d \<and>
         (donorName d \<noteq> [] \<and> donorEmail d \<noteq> [] \<and>
          \<not> (customAmount d = [] \<and> (\<forall>n. selectedAmount d = Some n \<longrightarrow> n \<le> 0)) \<and>
          \<not> (customAmount d \<noteq> [] \<and> le_zero (StringToNumber (customAmount d))) \<longrightarrow>
            d_toasts d' = d_toasts d @ [\<lparr>toast_message = ''Payment failed. Please try again.'',
                                          toast_type = ''error'', toast_duration = 4000\<rparr>] \<and>
            d_loading d' = False \<and>
            d_submitted d' = d_submitted d @
              [\<lparr>dd_name = donorName d, dd_email = donorEmail d,
                dd_amount = (if customAmount d \<noteq> [] then AmountText (customAmount d)
                             else case selectedAmount d of Some n \<Rightarrow> AmountNumber n
                                  | None \<Rightarrow> AmountNone),
                dd_frequency = selectedFrequency d, dd_anonymous = anonymousChecked d,
                dd_featured = featuredChecked d, dd_partner = partnerChecked d\<rparr>])"
    by (intro exI [of _ d']) blast
qed (simp_all add: ticket_handleSubmit_rejected show_toast_def)

theorem rejected_submit_keeps_input_witness:
  "toasts (ticket_handleSubmit rejecting example_clock valid_ticket_form) =
     [\<lparr>toast_message = ''Failed to submit ticket. Please try again or email us directly.'',
       toast_type = ''error'', toast_duration = 4000\<rparr>] \<and>
   nameInput (ticket_handleSubmit rejecting example_clock valid_ticket_form) =
     ''Jane Doe'' \<and>
   length (submitted (ticket_handleSubmit rejecting example_clock valid_ticket_form)) = 1 \<and>
   (\<exists>d'. donation_handleSubmit rejecting
            (new_DonationManager\<lparr>donorName := ''Jane'', donorEmail := ''jane@x.com'',
               customAmount := ''12.50''\<rparr>) = Returns d' \<and>
        d_toasts d' = [\<lparr>toast_message = ''Payment failed. Please try again.'',
                         toast_type = ''error'', toast_duration = 4000\<rparr>] \<and>
        donorName d' = ''Jane'' \<and> donorEmail d' = ''jane@x.com'' \<and>
        customAmount d' = ''12.50'' \<and> d_loading d' = False \<and>
        d_submitted d' =
          [\<lparr>dd_name = ''Jane'', dd_email = ''jane@x.com'', dd_amount = AmountText ''12.50'',
            dd_frequency = ''monthly'', dd_anonymous = False, dd_featured = False,
            dd_partner = False\<rparr>])"
proof -
  have valid: "\<forall>f. fst (validateField f valid_ticket_form)"
    unfolding all_ticket_fields
    by (simp add: validateField_def validateName_def ticket_validateEmail_def
        validateCategory_def validatePriority_def validateSubject_def validateDescription_def
        valid_ticket_form_def blank_ticket_form_def trim_def js_space_def
        email_pattern_def email_char_def)
  have start: "toasts valid_ticket_form = []" "nameInput valid_ticket_form = ''Jane Doe''"
    "submitted valid_ticket_form = []"
    by (simp_all add: valid_ticket_form_def blank_ticket_form_def)
  define d where "d = new_DonationManager\<lparr>donorName := ''Jane'', donorEmail := ''jane@x.com'',
    customAmount := ''12.50''\<rparr>"
  have rej: "\<forall>data :: ticketData. rejecting data = Rejects"
    "\<forall>data :: donationData. rejecting data = Rejects"
    by (simp_all add: rejecting_def)
  have dstart: "d_toasts d = []" "donorName d = ''Jane''" "donorEmail d = ''jane@x.com''"
    "customAmount d = ''12.50''" "d_submitted d = []" "selectedFrequency d = ''monthly''"
    "anonymousChecked d = False" "featuredChecked d = False" "partnerChecked d = False"
    by (simp_all add: d_def new_DonationManager_def)
  show ?thesis
    using rejected_submit_keeps_input
      [of valid_ticket_form rejecting example_clock rejecting d]
      valid start dstart rej le_zero_examples
    unfolding d_def [symmetric] by auto
qed

section \<open>Properties of JSON\<close>

lemma andThen_Returns [simp]: "andThen (Returns x) f = f x"
  by (simp add: andThen_def)

lemma lt16_cases:
  "k < 16 \<Longrightarrow> k = 0 \<or> k = 1 \<or> k = 2 \<or> k = 3 \<or> k = 4 \<or> k = 5 \<or> k = 6 \<or> k = 7 \<or> k = 8 \<or> k = 9
     \<or> k = 10 \<or> k = 11 \<or> k = 12 \<or> k = 13 \<or> k = 14 \<or> k = (15::nat)"
  by arith

lemma lt10_cases:
  "k < 10 \<Longrightarrow> k = 0 \<or> k = 1 \<or> k = 2 \<or> k = 3 \<or> k = 4 \<or> k = 5 \<or> k = 6 \<or> k = 7 \<or> k = 8
     \<or> k = (9::nat)"
  by arith

lemma hexchar_props:
  assumes "k < 16"
  shows "js_hexdigit (hexchar k)" and "hexval (hexchar k) = int k"
  using lt16_cases [OF assms]
  by (elim disjE; simp add: hexchar_def js_hexdigit_def hexval_def toLowerCase_char_def upt16)+

lemma decchar_props:
  assumes "k < 10"
  shows "js_digit (decchar k)" and "digitval (decchar k) = int k"
    and "(decchar k = CHR ''0'') = (k = 0)"
  using lt10_cases [OF assms]
  by (elim disjE; simp add: decchar_def js_digit_def digitval_def upt_rec)+


lemma decdigits_digits: "list_all js_digit (decdigits n)"
proof (induction n rule: decdigits.induct)
  case (1 n)
  show ?case
  proof (cases "n < 10")
    case True
    then show ?thesis
      by (subst decdigits.simps) (simp add: decchar_props)
  next
    case False
    with 1 have "list_all js_digit (decdigits (n div 10))" by simp
    with False show ?thesis
      by (subst decdigits.simps) (simp add: decchar_props)
  qed
qed

lemma decdigits_not_Nil: "decdigits n \<noteq> []"
  by (subst decdigits.simps) simp

lemma foldl_digit_snoc:
  "foldl (\<lambda>a c. 10 * a + digitval c) 0 (xs @ [d]) =
     10 * foldl (\<lambda>a c. 10 * a + digitval c) 0 xs + digitval d"
  by simp

lemma decdigits_value: "foldl (\<lambda>a c. 10 * a + digitval c) 0 (decdigits n) = int n"
proof (induction n rule: decdigits.induct)
  case (1 n)
  show ?case
  proof (cases "n < 10")
    case True
    then show ?thesis
      by (subst decdigits.simps) (simp add: decchar_props)
  next
    case False
    with 1 have ih: "foldl (\<lambda>a c. 10 * a + digitval c) 0 (decdigits (n div 10)) = int (n div 10)"
      by simp
    have "decdigits n = decdigits (n div 10) @ [decchar (n mod 10)]"
      using False by (subst decdigits.simps) simp
    moreover have "10 * int (n div 10) + int (n mod 10) = int n"
      by presburger
    ultimately show ?thesis
      by (simp only: foldl_digit_snoc ih) (simp add: decchar_props)
  qed
qed

lemma decdigits_hd: "hd (decdigits n) = CHR ''0'' \<Longrightarrow> n = 0"
proof (induction n rule: decdigits.induct)
  case (1 n)
  show ?case
  proof (cases "n < 10")
    case True
    with 1(2) show ?thesis
      by (subst (asm) decdigits.simps) (simp add: decchar_props)
  next
    case False
    then have eq: "decdigits n = decdigits (n div 10) @ [decchar (n mod 10)]"
      by (subst decdigits.simps) simp
    with 1(2) have "hd (decdigits (n div 10)) = CHR ''0''"
      by (simp add: decdigits_not_Nil)
    with 1(1) False have "n div 10 = 0" by simp
    with False show ?thesis by simp
  qed
qed

lemma decdigits_0: "decdigits 0 = ''0''"
  by (subst decdigits.simps) (simp add: decchar_def)

lemma digit_not_minus: "js_digit c \<Longrightarrow> c \<noteq> CHR ''-''"
  unfolding js_digit_def
  apply (simp only: list.set insert_iff empty_iff)
  apply (elim disjE FalseE)
  apply simp_all
  done

lemma takeWhile_digits:
  assumes "list_all js_digit ds" "number_ends rest"
  shows "takeWhile js_digit (ds @ rest) = ds"
proof -
  have "takeWhile js_digit rest = []"
    using assms(2) by (cases rest) (simp_all add: number_ends_def)
  with assms(1) show ?thesis
    by (simp add: takeWhile_append2 list_all_iff)
qed

lemma parse_nat_digits:
  assumes "number_ends rest"
  shows "parse_number (decdigits n @ rest) = Returns (JNum (int n), rest)"
proof -
  obtain c cs where ds: "decdigits n = c # cs"
    using decdigits_not_Nil [of n] by (cases "decdigits n") auto
  have dig: "list_all js_digit (c # cs)"
    using decdigits_digits [of n] ds by simp
  then have c: "js_digit c" "c \<noteq> CHR ''-''"
    by (simp_all add: digit_not_minus)
  have run: "(if c = CHR ''0'' then [c] else takeWhile js_digit (c # cs @ rest)) = c # cs"
  proof (cases "c = CHR ''0''")
    case True
    then have "n = 0" using decdigits_hd [of n] ds by simp
    with ds True show ?thesis by (simp add: decdigits_0)
  next
    case False
    then show ?thesis
      using takeWhile_digits [OF dig assms] by simp
  qed
  have val: "foldl (\<lambda>a c. 10 * a + digitval c) 0 (c # cs) = int n"
    using decdigits_value [of n] ds by simp
  have tail: "\<not> (rest \<noteq> [] \<and> hd rest \<in> set ''.eE'')"
    using assms by (auto simp: number_ends_def)
  show ?thesis
    unfolding ds parse_number_def
    using c run val tail by (simp add: Let_def del: foldl_Cons)
qed

lemma parse_number_show_int:
  assumes "number_ends rest"
  shows "parse_number (show_int n @ rest) = Returns (JNum n, rest)"
proof (cases "n < 0")
  case False
  then show ?thesis
    using parse_nat_digits [OF assms, of "nat n"] by (simp add: show_int_def)
next
  case True
  obtain c cs where ds: "decdigits (nat (- n)) = c # cs"
    using decdigits_not_Nil [of "nat (- n)"] by (cases "decdigits (nat (- n))") auto
  have dig: "list_all js_digit (c # cs)"
    using decdigits_digits [of "nat (- n)"] ds by simp
  have run: "(if c = CHR ''0'' then [c] else takeWhile js_digit (c # cs @ rest)) = c # cs"
  proof (cases "c = CHR ''0''")
    case True
    then have "nat (- n) = 0" using decdigits_hd [of "nat (- n)"] ds by simp
    with \<open>n < 0\<close> show ?thesis by simp
  next
    case False
    then show ?thesis
      using takeWhile_digits [OF dig assms] by simp
  qed
  have val: "foldl (\<lambda>a c. 10 * a + digitval c) 0 (c # cs) = - n"
    using decdigits_value [of "nat (- n)"] ds True by simp
  have tail: "\<not> (rest \<noteq> [] \<and> hd rest \<in> set ''.eE'')"
    using assms by (auto simp: number_ends_def)
  show ?thesis
    using True run val tail
    by (simp add: show_int_def ds parse_number_def Let_def del: foldl_Cons)
qed


lemma parse_chars_escape:
  "parse_chars (escape_char c @ rest) =
     andThen (parse_chars rest) (\<lambda>(s, r). Returns (c # s, r))"
proof -
  consider "c = CHR 0x22" | "c = CHR 0x5C" | "c = CHR 0x08" | "c = CHR 0x0C" | "c = CHR 0x0A"
    | "c = CHR 0x0D" | "c = CHR 0x09"
    | "c \<noteq> CHR 0x22" "c \<noteq> CHR 0x5C" "c \<noteq> CHR 0x08" "c \<noteq> CHR 0x0C" "c \<noteq> CHR 0x0A"
      "c \<noteq> CHR 0x0D" "c \<noteq> CHR 0x09" "(of_char c :: nat) < 32"
    | "c \<noteq> CHR 0x22" "c \<noteq> CHR 0x5C" "\<not> (of_char c :: nat) < 32"
    by blast
  then show ?thesis
  proof cases
    case 8
    have lt: "(of_char c :: nat) div 16 < 16" "(of_char c :: nat) mod 16 < 16"
      using 8(8) by simp_all
    have rebuilt: "char_of (16 * int (of_char c div 16) + int (of_char c mod 16)) = c"
    proof -
      have "16 * int (of_char c div 16) + int (of_char c mod 16) = int (of_char c)"
        by presburger
      then show ?thesis by simp
    qed
    have zero: "js_hexdigit CHR ''0''"
      by (simp add: js_hexdigit_def)
    show ?thesis
      using 8
      by (simp add: escape_char_def hexchar_props [OF lt(1)] hexchar_props [OF lt(2)] rebuilt zero)
  next
    case 9
    then show ?thesis
      by (auto simp: escape_char_def)
  qed (simp_all add: escape_char_def unescape_def)
qed

lemma parse_chars_quoted:
  "parse_chars (concat (map escape_char s) @ CHR 0x22 # rest) = Returns (s, rest)"
  by (induction s) (simp_all add: parse_chars_escape)

lemma skip_ws_Cons: "\<not> json_ws c \<Longrightarrow> skip_ws (c # cs) = c # cs"
  by (simp add: skip_ws_def)

declare parse_value.simps [simp del] parse_elements.simps [simp del]
  parse_members.simps [simp del]

lemma parse_value_string:
  "parse_value (Suc k) (quote s @ rest) = Returns (JStr s, rest)"
  by (simp add: parse_value.simps quote_def skip_ws_def json_ws_def parse_chars_quoted)

lemma digit_starts_number:
  "js_digit c \<Longrightarrow> \<not> json_ws c \<and> c \<noteq> CHR ''{'' \<and> c \<noteq> CHR ''['' \<and> c \<noteq> CHR 0x22"
  unfolding js_digit_def
  apply (simp only: list.set insert_iff empty_iff)
  apply (elim disjE FalseE)
  apply (simp_all add: json_ws_def)
  done

lemma parse_value_number:
  assumes "number_ends rest"
  shows "parse_value (Suc k) (show_int n @ rest) = Returns (JNum n, rest)"
proof -
  obtain c cs where sh: "show_int n = c # cs" and c: "c = CHR ''-'' \<or> js_digit c"
  proof (cases "n < 0")
    case True
    then show ?thesis using that by (simp add: show_int_def)
  next
    case False
    obtain d ds where ds: "decdigits (nat n) = d # ds"
      using decdigits_not_Nil [of "nat n"] by (cases "decdigits (nat n)") auto
    then have "js_digit d"
      using decdigits_digits [of "nat n"] by simp
    with False ds show ?thesis using that by (simp add: show_int_def)
  qed
  have first: "\<not> json_ws c \<and> c \<noteq> CHR ''{'' \<and> c \<noteq> CHR ''['' \<and> c \<noteq> CHR 0x22"
    using c digit_starts_number [of c] by (auto simp: json_ws_def)
  have "parse_value (Suc k) (c # cs @ rest) = parse_number (c # cs @ rest)"
    using first c by (simp add: parse_value.simps skip_ws_def)
  then show ?thesis
    using parse_number_show_int [OF assms, of n] by (simp add: sh)
qed

lemma parse_elements_strings:
  "ps \<noteq> [] \<Longrightarrow> length ps < n \<Longrightarrow>
     parse_elements n (join '','' (map quote ps) @ CHR '']'' # rest) = Returns (map JStr ps, rest)"
proof (induction ps arbitrary: n)
  case Nil
  then show ?case by simp
next
  case (Cons p ps)
  from Cons.prems(2) obtain m where n: "n = Suc (Suc m)" and m: "length ps \<le> m"
    by (cases n; cases "n - 1") auto
  show ?case
  proof (cases ps)
    case Nil
    then show ?thesis
      unfolding n
      by (subst parse_elements.simps) (simp add: parse_value_string skip_ws_def json_ws_def)
  next
    case (Cons q qs)
    then have "parse_elements (Suc m) (join '','' (map quote ps) @ CHR '']'' # rest) =
        Returns (map JStr ps, rest)"
      using Cons.IH [of "Suc m"] m by simp
    with Cons show ?thesis
      unfolding n
      by (subst parse_elements.simps) (simp add: parse_value_string skip_ws_def json_ws_def)
  qed
qed

lemma stringify_strings: "stringify_elements (map JStr ps) = map quote ps"
  by (induction ps) simp_all

lemma join_quotes_start:
  "ps \<noteq> [] \<Longrightarrow> \<exists>cs. join '','' (map quote ps) = CHR 0x22 # cs"
  by (cases ps; cases "tl ps") (simp_all add: quote_def)

lemma parse_value_strings:
  assumes "length ps < n"
  shows "parse_value (Suc n) (JSON_stringify (JArr (map JStr ps)) @ rest) =
           Returns (JArr (map JStr ps), rest)"
proof (cases "ps = []")
  case True
  then show ?thesis
    by (simp add: parse_value.simps skip_ws_def json_ws_def)
next
  case False
  then obtain cs where start: "join '','' (map quote ps) = CHR 0x22 # cs"
    using join_quotes_start by blast
  have "parse_elements n (join '','' (map quote ps) @ CHR '']'' # rest) =
      Returns (map JStr ps, rest)"
    using assms False by (intro parse_elements_strings) simp_all
  then have run: "parse_elements n (CHR 0x22 # cs @ CHR '']'' # rest) = Returns (map JStr ps, rest)"
    by (simp add: start)
  have "parse_value (Suc n) (CHR ''['' # CHR 0x22 # cs @ CHR '']'' # rest) =
      Returns (JArr (map JStr ps), rest)"
    by (subst parse_value.simps) (simp add: skip_ws_def json_ws_def run)
  then show ?thesis
    by (simp add: stringify_strings start)
qed

lemma parse_member_last:
  assumes "parse_value n (vt @ CHR ''}'' # rest) = Returns (v, CHR ''}'' # rest)"
  shows "parse_members (Suc n) (quote k @ CHR '':'' # vt @ CHR ''}'' # rest) =
           Returns ([(k, v)], rest)"
  using assms
  by (subst parse_members.simps)
    (simp add: quote_def skip_ws_def json_ws_def parse_chars_quoted)

lemma parse_member_more:
  assumes "parse_value n (vt @ CHR '','' # others) = Returns (v, CHR '','' # others)"
    and "parse_members n others = Returns (kvs, rest)"
  shows "parse_members (Suc n) (quote k @ CHR '':'' # vt @ CHR '','' # others) =
           Returns ((k, v) # kvs, rest)"
  using assms
  by (subst parse_members.simps)
    (simp add: quote_def skip_ws_def json_ws_def parse_chars_quoted)

lemma parse_object:
  assumes "parse_members n (quote k @ others) = Returns (kvs, rest)"
  shows "parse_value (Suc n) (CHR ''{'' # quote k @ others) = Returns (JObj kvs, rest)"
  using assms
  by (subst parse_value.simps) (simp add: quote_def skip_ws_def json_ws_def)


lemma length_join_quotes: "length ps \<le> length (join '','' (map quote ps))"
proof (induction ps)
  case Nil
  show ?case by simp
next
  case (Cons p ps)
  then show ?case
    by (cases ps) (simp_all add: quote_def)
qed

lemma number_ends_comma: "number_ends (CHR '','' # rest)"
  by (simp add: number_ends_def js_digit_def)

lemma parse_progress_text:
  assumes "length ps < n"
  shows "parse_value (Suc (Suc (Suc (Suc n))))
           (JSON_stringify (JObj [(''count'', JNum c), (''platforms'', JArr (map JStr ps))]) @ rest) =
         Returns (JObj [(''count'', JNum c), (''platforms'', JArr (map JStr ps))], rest)"
proof -
  let ?A = "JSON_stringify (JArr (map JStr ps))"
  let ?others = "quote ''platforms'' @ CHR '':'' # ?A @ CHR ''}'' # rest"
  have arr: "parse_value (Suc n) (?A @ CHR ''}'' # rest) =
      Returns (JArr (map JStr ps), CHR ''}'' # rest)"
    using assms by (rule parse_value_strings)
  have m2: "parse_members (Suc (Suc n)) ?others = Returns ([(''platforms'', JArr (map JStr ps))], rest)"
    using arr by (rule parse_member_last)
  have num: "parse_value (Suc (Suc n)) (show_int c @ CHR '','' # ?others) =
      Returns (JNum c, CHR '','' # ?others)"
    using number_ends_comma by (rule parse_value_number)
  have m1: "parse_members (Suc (Suc (Suc n)))
      (quote ''count'' @ CHR '':'' # show_int c @ CHR '','' # ?others) =
      Returns ([(''count'', JNum c), (''platforms'', JArr (map JStr ps))], rest)"
    using num m2 by (rule parse_member_more)
  have "parse_value (Suc (Suc (Suc (Suc n))))
      (CHR ''{'' # quote ''count'' @ CHR '':'' # show_int c @ CHR '','' # ?others) =
      Returns (JObj [(''count'', JNum c), (''platforms'', JArr (map JStr ps))], rest)"
    using m1 by (rule parse_object)
  then show ?thesis
    by simp
qed

lemma JSON_parse_progress:
  "JSON_parse (JSON_stringify (JObj [(''count'', JNum c), (''platforms'', JArr (map JStr ps))])) =
     Returns (JObj [(''count'', JNum c), (''platforms'', JArr (map JStr ps))])"
proof -
  let ?T = "JSON_stringify (JObj [(''count'', JNum c), (''platforms'', JArr (map JStr ps))])"
  have "length ps + 2 \<le> length ?T"
    using length_join_quotes [of ps] by (simp add: stringify_strings)
  then have "2 * length ?T + 2 = Suc (Suc (Suc (Suc (2 * length ?T - 2)))) \<and>
      length ps < 2 * length ?T - 2"
    by arith
  then obtain n where fuel: "2 * length ?T + 2 = Suc (Suc (Suc (Suc n)))" and n: "length ps < n"
    by blast
  show ?thesis
    unfolding JSON_parse_def fuel
    using parse_progress_text [OF n, of c "[]"] by (simp add: skip_ws_def)
qed

lemma parse_theme_text:
  "parse_value (Suc (Suc (Suc (Suc n))))
     (JSON_stringify (JObj [(''color'', JStr c), (''mode'', JStr m)]) @ rest) =
   Returns (JObj [(''color'', JStr c), (''mode'', JStr m)], rest)"
proof -
  let ?others = "quote ''mode'' @ CHR '':'' # quote m @ CHR ''}'' # rest"
  have v2: "parse_value (Suc n) (quote m @ CHR ''}'' # rest) = Returns (JStr m, CHR ''}'' # rest)"
    by (rule parse_value_string)
  have m2: "parse_members (Suc (Suc n)) ?others = Returns ([(''mode'', JStr m)], rest)"
    using v2 by (rule parse_member_last)
  have v1: "parse_value (Suc (Suc n)) (quote c @ CHR '','' # ?others) =
      Returns (JStr c, CHR '','' # ?others)"
    by (rule parse_value_string)
  have m1: "parse_members (Suc (Suc (Suc n))) (quote ''color'' @ CHR '':'' # quote c @ CHR '','' # ?others) =
      Returns ([(''color'', JStr c), (''mode'', JStr m)], rest)"
    using v1 m2 by (rule parse_member_more)
  have "parse_value (Suc (Suc (Suc (Suc n))))
      (CHR ''{'' # quote ''color'' @ CHR '':'' # quote c @ CHR '','' # ?others) =
      Returns (JObj [(''color'', JStr c), (''mode'', JStr m)], rest)"
    using m1 by (rule parse_object)
  then show ?thesis
    by simp
qed

lemma JSON_parse_theme:
  "JSON_parse (JSON_stringify (JObj [(''color'', JStr c), (''mode'', JStr m)])) =
     Returns (JObj [(''color'', JStr c), (''mode'', JStr m)])"
proof -
  let ?T = "JSON_stringify (JObj [(''color'', JStr c), (''mode'', JStr m)])"
  have "1 \<le> length ?T"
    by simp
  then have "2 * length ?T + 2 = Suc (Suc (Suc (Suc (2 * length ?T - 2))))"
    by arith
  then obtain n where fuel: "2 * length ?T + 2 = Suc (Suc (Suc (Suc n)))"
    by blast
  show ?thesis
    unfolding JSON_parse_def fuel
    using parse_theme_text [of n c m "[]"] by (simp add: skip_ws_def)
qed

section \<open>Properties of the preference stores\<close>

lemma new_Set_foldl_set:
  "set (foldl (\<lambda>acc x. if x \<in> set acc then acc else acc @ [x]) acc xs) = set acc \<union> set xs"
  by (induction xs arbitrary: acc) auto

lemma new_Set_foldl_distinct:
  "distinct (acc @ xs) \<Longrightarrow>
     foldl (\<lambda>acc x. if x \<in> set acc then acc else acc @ [x]) acc xs = acc @ xs"
  by (induction xs arbitrary: acc) auto

lemma set_new_Set: "set (new_Set xs) = set xs"
  by (simp add: new_Set_def new_Set_foldl_set)

lemma new_Set_distinct: "distinct xs \<Longrightarrow> new_Set xs = xs"
  using new_Set_foldl_distinct [of "[]" xs] by (simp add: new_Set_def)

lemma strings_of_map: "strings_of (map JStr ps) = Some ps"
  by (induction ps) simp_all

lemma mark_all:
  "foldl (\<lambda>s platform. markPlatformShared platform s) st ps =
     st\<lparr>markedShared := markedShared st \<union> set ps\<rparr>"
proof (induction ps arbitrary: st)
  case Nil
  show ?case by simp
next
  case (Cons p ps)
  have "insert p (markedShared st) \<union> set ps = markedShared st \<union> set (p # ps)"
    by auto
  then show ?case
    unfolding foldl_Cons Cons.IH by (simp add: markPlatformShared_def)
qed

lemma progress_text_not_Nil:
  "JSON_stringify (JObj [(''count'', JNum c), (''platforms'', JArr (map JStr ps))]) \<noteq> []"
  by simp

lemma loadProgress_saved:
  assumes "localStorage st0 ''studyflow-share-progress'' =
      Some (JSON_stringify (JObj [(''count'', JNum c), (''platforms'', JArr (map JStr ps))]))"
  shows "loadProgress st0 =
      Returns (if c \<ge> 3
               then unlockChampionStatus
                      ((updateProgress (st0\<lparr>shareCount := c, sharedPlatforms := new_Set ps\<rparr>))
                         \<lparr>markedShared := markedShared st0 \<union> set ps\<rparr>)
               else (updateProgress (st0\<lparr>shareCount := c, sharedPlatforms := new_Set ps\<rparr>))
                      \<lparr>markedShared := markedShared st0 \<union> set ps\<rparr>)"
  unfolding loadProgress_def assms option.case
  by (simp only: progress_text_not_Nil if_False JSON_parse_progress andThen_Returns)
    (simp add: js_get_def count_or_0_def strings_of_map mark_all updateProgress_def)

lemma registerShare_known:
  "platform \<in> set (sharedPlatforms st) \<Longrightarrow>
     registerShare platform st =
       st\<lparr>s_toasts := show_toast ''You already shared on this platform!'' ''info'' 4000
                         (s_toasts st)\<rparr>"
  by (simp add: registerShare_def)

lemma registerShare_new:
  "platform \<notin> set (sharedPlatforms st) \<Longrightarrow>
     registerShare platform st =
       st\<lparr>sharedPlatforms := sharedPlatforms st @ [platform],
          shareCount := shareCount st + 1,
          shareCountText := show_int (shareCount st + 1),
          progressMessage := progressMessage
             (updateProgress (st\<lparr>shareCount := shareCount st + 1\<rparr>)),
          markedShared := insert platform (markedShared st),
          localStorage := (localStorage st)(''studyflow-share-progress'' \<mapsto>
             JSON_stringify (JObj [(''count'', JNum (shareCount st + 1)),
               (''platforms'', JArr (map JStr (sharedPlatforms st @ [platform])))])),
          s_toasts := show_toast (''Shared on '' @ platform @ ''! '') ''success'' 4000
                        (s_toasts st)\<rparr>"
  by (simp add: registerShare_def Let_def updateProgress_def markPlatformShared_def
      saveProgress_def unlockChampionStatus_def)


text \<open>
  Claim C7. Registering a platform that is already recorded changes nothing but the
  toasts, to which it adds an informational notice: count, platform set and the saved
  progress stay as they are. Registering the same platform twice raises the count by
  at most one, and no registration lowers the count.
\<close>

theorem registerShare_duplicate_is_noop:
  "(p \<in> set (sharedPlatforms st) \<longrightarrow>
      registerShare p st =
        st\<lparr>s_toasts := s_toasts st @
              [\<lparr>toast_message = ''You already shared on this platform!'', toast_type = ''info'',
                toast_duration = 4000\<rparr>]\<rparr>) \<and>
   shareCount (registerShare p (registerShare p st)) \<le> shareCount st + 1 \<and>
   shareCount (registerShare p st) \<le> shareCount st + 1 \<and>
   shareCount st \<le> shareCount (registerShare p st)"
proof -
  have known: "p \<in> set (sharedPlatforms st) \<Longrightarrow> ?thesis"
    by (simp add: registerShare_known show_toast_def)
  have new: "p \<notin> set (sharedPlatforms st) \<Longrightarrow> ?thesis"
    by (simp add: registerShare_new registerShare_known)
  from known new show ?thesis by blast
qed

theorem registerShare_duplicate_is_noop_witness:
  "shareCount (registerShare ''twitter''
      (registerShare ''twitter'' (fresh_sharing_page empty_storage))) = 1 \<and>
   sharedPlatforms (registerShare ''twitter''
      (registerShare ''twitter'' (fresh_sharing_page empty_storage))) = [''twitter''] \<and>
   map toast_type (s_toasts (registerShare ''twitter''
      (registerShare ''twitter'' (fresh_sharing_page empty_storage)))) = [''success'', ''info'']"
proof -
  have first: "registerShare ''twitter'' (fresh_sharing_page empty_storage) =
      (fresh_sharing_page empty_storage)
        \<lparr>sharedPlatforms := [''twitter''], shareCount := 1, shareCountText := show_int 1,
         progressMessage := progressMessage
           (updateProgress ((fresh_sharing_page empty_storage)\<lparr>shareCount := 1\<rparr>)),
         markedShared := {''twitter''},
         localStorage := empty_storage(''studyflow-share-progress'' \<mapsto>
           JSON_stringify (JObj [(''count'', JNum 1), (''platforms'', JArr (map JStr [''twitter'']))])),
         s_toasts := show_toast (''Shared on '' @ ''twitter'' @ ''! '') ''success'' 4000 []\<rparr>"
    by (subst registerShare_new) (simp_all add: fresh_sharing_page_def)
  have known: "''twitter'' \<in> set (sharedPlatforms (registerShare ''twitter''
      (fresh_sharing_page empty_storage)))"
    unfolding first by simp
  show ?thesis
    using registerShare_duplicate_is_noop
      [of "''twitter''" "registerShare ''twitter'' (fresh_sharing_page empty_storage)"] known
    by (simp add: first show_toast_def)
qed


lemma registerShare_keeps_hidden:
  "championHidden (registerShare p st) = championHidden st"
  by (cases "p \<in> set (sharedPlatforms st)") (simp_all add: registerShare_known registerShare_new)

lemma three_shares_eq:
  "three_shares =
     (fresh_sharing_page empty_storage)
       \<lparr>sharedPlatforms := [''twitter'', ''facebook'', ''linkedin''], shareCount := 3,
        shareCountText := show_int 3,
        progressMessage := '' You'' @ [CHR 0x27] @ ''re a Community Champion!'',
        markedShared := {''twitter'', ''facebook'', ''linkedin''},
        localStorage := empty_storage(''studyflow-share-progress'' \<mapsto>
          JSON_stringify (JObj [(''count'', JNum 3), (''platforms'',
            JArr (map JStr [''twitter'', ''facebook'', ''linkedin'']))])),
        s_toasts := [\<lparr>toast_message = ''Shared on twitter! '', toast_type = ''success'',
                       toast_duration = 4000\<rparr>,
                     \<lparr>toast_message = ''Shared on facebook! '', toast_type = ''success'',
                       toast_duration = 4000\<rparr>,
                     \<lparr>toast_message = ''Shared on linkedin! '', toast_type = ''success'',
                       toast_duration = 4000\<rparr>]\<rparr>"
  unfolding three_shares_def
  by (simp add: registerShare_def Let_def fresh_sharing_page_def updateProgress_def
      markPlatformShared_def saveProgress_def unlockChampionStatus_def show_toast_def
      insert_commute)

text \<open>
  Claim C2, at the failing input. On a fresh page with nothing saved, whose champion
  section is hidden, the three registrations bring the count to 3 and the progress
  message to the champion text, but the champion section is still hidden:
  \<open>registerShare\<close> calls \<open>unlockChampionStatus\<close> only when the section is not hidden,
  and then there is nothing to unlock. The next page load, on the progress saved,
  does unlock it.
\<close>

theorem third_share_leaves_champion_locked:
  "championHidden (fresh_sharing_page empty_storage) = True \<and>
   shareCount three_shares = 3 \<and>
   sharedPlatforms three_shares = [''twitter'', ''facebook'', ''linkedin''] \<and>
   progressMessage three_shares = '' You'' @ [CHR 0x27] @ ''re a Community Champion!'' \<and>
   championHidden three_shares = True \<and>
   new_SocialSharingManager (localStorage three_shares) =
     Returns (three_shares\<lparr>championHidden := False, s_toasts := []\<rparr>)"
proof -
  have stored: "localStorage (fresh_sharing_page (localStorage three_shares))
        ''studyflow-share-progress'' =
      Some (JSON_stringify (JObj [(''count'', JNum 3), (''platforms'',
            JArr (map JStr [''twitter'', ''facebook'', ''linkedin'']))]))"
    unfolding three_shares_eq by (simp add: fresh_sharing_page_def)
  have reload: "new_SocialSharingManager (localStorage three_shares) =
     Returns (three_shares\<lparr>championHidden := False, s_toasts := []\<rparr>)"
    unfolding new_SocialSharingManager_def loadProgress_saved [OF stored]
    unfolding three_shares_eq
    by (simp add: fresh_sharing_page_def updateProgress_def unlockChampionStatus_def
        new_Set_distinct insert_commute)
  show ?thesis
    using reload by (simp add: three_shares_eq fresh_sharing_page_def)
qed


lemma hexdigit_not_space: "js_hexdigit c \<Longrightarrow> \<not> js_space c"
  unfolding js_hexdigit_def
  apply (simp only: list.set insert_iff empty_iff)
  apply (elim disjE FalseE)
  apply (simp_all add: js_space_def)
  done

lemma hex_pattern_trim:
  assumes "rx_match hex_pattern s"
  shows "trim s = s"
proof -
  from assms obtain ds where ds: "length ds = 6" "list_all js_hexdigit ds"
    and s: "s = ds \<or> s = CHR ''#'' # ds"
    unfolding hex_pattern_iff by blast
  from ds(1) have ne: "ds \<noteq> []" by auto
  with ds(2) have "js_hexdigit (hd ds)" "js_hexdigit (last ds)"
    by (simp_all add: list_all_iff)
  then have ends: "\<not> js_space (hd ds)" "\<not> js_space (last ds)"
    by (simp_all add: hexdigit_not_space)
  have hash: "\<not> js_space CHR ''#''"
    by (simp add: js_space_def)
  from s show ?thesis
  proof
    assume "s = ds"
    with ne ends show ?thesis by (simp add: trim_id)
  next
    assume "s = CHR ''#'' # ds"
    with ne ends hash show ?thesis by (intro trim_id) simp_all
  qed
qed

lemma theme_text_not_Nil:
  "JSON_stringify (JObj [(''color'', JStr c), (''mode'', JStr m)]) \<noteq> []"
  by simp

lemma loadSavedTheme_saved:
  assumes "t_localStorage d0 ''studyflow-theme'' =
      Some (JSON_stringify (JObj [(''color'', JStr c), (''mode'', JStr m)]))"
  shows "loadSavedTheme d0 =
      andThen (applyColor c d0)
        (\<lambda>d1. Returns (if m = ''dark'' then d1\<lparr>dataTheme := Some ''dark''\<rparr> else d1))"
  unfolding loadSavedTheme_def assms option.case
  by (simp only: theme_text_not_Nil if_False JSON_parse_theme andThen_Returns)
    (simp add: js_get_def)

lemma saveTheme_stored:
  "t_localStorage (saveTheme d) ''studyflow-theme'' =
     Some (JSON_stringify (JObj [(''color'', JStr (fst (current_theme d))),
                                 (''mode'', JStr (snd (current_theme d)))]))"
  by (simp add: saveTheme_def current_theme_def)

lemma saveProgress_stored:
  "localStorage (saveProgress st) ''studyflow-share-progress'' =
     Some (JSON_stringify (JObj [(''count'', JNum (shareCount st)),
                                 (''platforms'', JArr (map JStr (sharedPlatforms st)))]))"
  by (simp add: saveProgress_def)

text \<open>
  Claim C3, as amended. \<open>loadProgress\<close> on the progress that \<open>saveProgress\<close> wrote
  returns a state with the same share count and the same set of platforms, on the
  saving page as on any other page with that value in \<open>localStorage\<close>.
  \<open>loadSavedTheme\<close> on the theme that \<open>saveTheme\<close> wrote restores the same colour
  and mode when the colour is an optional \<open>#\<close> and six hexadecimal digits, the form
  \<open>applyColor\<close> accepts, for the modes light and dark that \<open>toggleMode\<close> sets, on
  the saving page as on a page that starts in light mode.
\<close>

theorem save_then_load_restores:
  "(localStorage st0 ''studyflow-share-progress'' =
      localStorage (saveProgress st) ''studyflow-share-progress'' \<longrightarrow>
      (\<exists>st'. loadProgress st0 = Returns st' \<and> shareCount st' = shareCount st \<and>
             set (sharedPlatforms st') = set (sharedPlatforms st))) \<and>
   (rx_match hex_pattern (trim (primaryColor d)) \<and>
    (dataTheme d = None \<or> dataTheme d = Some ''dark'') \<and>
    (dataTheme d0 = None \<or> dataTheme d0 = dataTheme d) \<and>
    t_localStorage d0 ''studyflow-theme'' = t_localStorage (saveTheme d) ''studyflow-theme'' \<longrightarrow>
      (\<exists>d1. loadSavedTheme d0 = Returns d1 \<and> current_theme d1 = current_theme d))"
proof (intro conjI impI)
  assume "localStorage st0 ''studyflow-share-progress'' =
      localStorage (saveProgress st) ''studyflow-share-progress''"
  then have stored: "localStorage st0 ''studyflow-share-progress'' =
      Some (JSON_stringify (JObj [(''count'', JNum (shareCount st)),
                                  (''platforms'', JArr (map JStr (sharedPlatforms st)))]))"
    by (simp only: saveProgress_stored)
  show "\<exists>st'. loadProgress st0 = Returns st' \<and> shareCount st' = shareCount st \<and>
             set (sharedPlatforms st') = set (sharedPlatforms st)"
    unfolding loadProgress_saved [OF stored]
    by (simp add: updateProgress_def unlockChampionStatus_def set_new_Set)
next
  assume a: "rx_match hex_pattern (trim (primaryColor d)) \<and>
    (dataTheme d = None \<or> dataTheme d = Some ''dark'') \<and>
    (dataTheme d0 = None \<or> dataTheme d0 = dataTheme d) \<and>
    t_localStorage d0 ''studyflow-theme'' = t_localStorage (saveTheme d) ''studyflow-theme''"
  let ?c = "trim (primaryColor d)"
  from a have stored: "t_localStorage d0 ''studyflow-theme'' =
      Some (JSON_stringify (JObj [(''color'', JStr (fst (current_theme d))),
                                  (''mode'', JStr (snd (current_theme d)))]))"
    by (simp only: saveTheme_stored)
  from a obtain rgb where rgb: "hexToRgb ?c = Some rgb"
    by (auto simp: hexToRgb_def Let_def)
  from a have tr: "trim ?c = ?c"
    by (simp add: hex_pattern_trim)
  have c: "fst (current_theme d) = ?c"
    by (simp add: current_theme_def)
  from a have modes: "dataTheme d = None \<or> dataTheme d = Some ''dark''"
    "dataTheme d0 = None \<or> dataTheme d0 = dataTheme d"
    by simp_all
  show "\<exists>d1. loadSavedTheme d0 = Returns d1 \<and> current_theme d1 = current_theme d"
    unfolding loadSavedTheme_saved [OF stored] c
    using modes
    by (auto simp: applyColor_def rgb saveTheme_def current_theme_def tr)
qed


theorem save_then_load_restores_witness:
  "(\<exists>st'. loadProgress (fresh_sharing_page (localStorage (saveProgress three_shares))) =
            Returns st' \<and>
          shareCount st' = 3 \<and>
          set (sharedPlatforms st') = {''twitter'', ''facebook'', ''linkedin''}) \<and>
   (\<exists>d1. loadSavedTheme (example_theme_page (t_localStorage (saveTheme
            ((example_theme_page empty_storage)\<lparr>dataTheme := Some ''dark''\<rparr>)))) = Returns d1 \<and>
         current_theme d1 = (''#0066cc'', ''dark''))"
proof -
  let ?dark = "(example_theme_page empty_storage)\<lparr>dataTheme := Some ''dark''\<rparr>"
  let ?fresh = "example_theme_page (t_localStorage (saveTheme ?dark))"
  let ?reloaded = "fresh_sharing_page (localStorage (saveProgress three_shares))"
  have h1: "localStorage ?reloaded ''studyflow-share-progress'' =
      localStorage (saveProgress three_shares) ''studyflow-share-progress''"
    by (simp add: fresh_sharing_page_def)
  have h2: "rx_match hex_pattern (trim (primaryColor ?dark))"
    by (simp add: example_theme_page_def trim_def js_space_def hex_pattern_def js_hexdigit_def)
  have h3: "dataTheme ?dark = None \<or> dataTheme ?dark = Some ''dark''"
    "dataTheme ?fresh = None \<or> dataTheme ?fresh = dataTheme ?dark"
    "t_localStorage ?fresh ''studyflow-theme'' = t_localStorage (saveTheme ?dark) ''studyflow-theme''"
    by (simp_all add: example_theme_page_def)
  have vals: "shareCount three_shares = 3"
    "set (sharedPlatforms three_shares) = {''twitter'', ''facebook'', ''linkedin''}"
    "current_theme ?dark = (''#0066cc'', ''dark'')"
    by (simp_all add: three_shares_eq current_theme_def example_theme_page_def trim_def
        js_space_def insert_commute)
  show ?thesis
    using save_then_load_restores [of ?reloaded three_shares ?dark ?fresh] h1 h2 h3
    unfolding vals by blast
qed

text \<open>
  Claim C3 as stated speaks of every snapshot. A page whose primary colour is the
  three-digit \<open>#06c\<close> saves it, and \<open>loadSavedTheme\<close> then throws a \<open>TypeError\<close>:
  \<open>hexToRgb\<close> returns \<open>null\<close> and \<open>applyColor\<close> reads \<open>rgb.r\<close>.
\<close>

theorem load_short_colour_counterexample:
  "loadSavedTheme (saveTheme ((example_theme_page empty_storage)\<lparr>primaryColor := ''#06c''\<rparr>)) =
     Throws TypeError"
proof -
  let ?d = "(example_theme_page empty_storage)\<lparr>primaryColor := ''#06c''\<rparr>"
  have c: "current_theme ?d = (''#06c'', ''light'')"
    by (simp add: current_theme_def example_theme_page_def trim_def js_space_def)
  have none: "hexToRgb ''#06c'' = None"
    by (simp add: hexToRgb_def hex_pattern_def js_hexdigit_def)
  show ?thesis
    unfolding loadSavedTheme_saved [OF saveTheme_stored] c
    by (simp add: applyColor_def none andThen_def)
qed

text \<open>
  A remark on the theme store. \<open>loadSavedTheme\<close> calls \<open>applyColor\<close>, which saves
  the theme again before the saved mode is applied. On a page that starts in light
  mode, loading a dark theme makes the page dark but leaves \<open>light\<close> in
  \<open>localStorage\<close>.
\<close>

lemma load_dark_theme_saves_light:
  assumes "rx_match hex_pattern c" and "dataTheme d = None"
    and "t_localStorage d ''studyflow-theme'' =
      Some (JSON_stringify (JObj [(''color'', JStr c), (''mode'', JStr ''dark'')]))"
  shows "\<exists>d1. loadSavedTheme d = Returns d1 \<and> dataTheme d1 = Some ''dark'' \<and>
    t_localStorage d1 ''studyflow-theme'' =
      Some (JSON_stringify (JObj [(''color'', JStr c), (''mode'', JStr ''light'')]))"
proof -
  from assms(1) obtain rgb where rgb: "hexToRgb c = Some rgb"
    by (auto simp: hexToRgb_def Let_def)
  from assms(1) have tr: "trim c = c"
    by (rule hex_pattern_trim)
  show ?thesis
    unfolding loadSavedTheme_saved [OF assms(3)]
    using assms(2) by (simp add: applyColor_def rgb saveTheme_def tr)
qed

text \<open>
  Claim C1, as amended. When nothing (or the empty string) is stored under its key,
  \<open>loadProgress\<close> and \<open>loadSavedTheme\<close> return without an error and leave the state
  as it is, at its defaults. A stored string that is not JSON is not treated as
  absent: the \<open>SyntaxError\<close> of \<open>JSON.parse\<close> is not caught, and both functions
  throw it.
\<close>

theorem load_absent_or_malformed:
  "(localStorage st ''studyflow-share-progress'' = None \<or>
    localStorage st ''studyflow-share-progress'' = Some [] \<longrightarrow> loadProgress st = Returns st) \<and>
   (t_localStorage d ''studyflow-theme'' = None \<or>
    t_localStorage d ''studyflow-theme'' = Some [] \<longrightarrow> loadSavedTheme d = Returns d) \<and>
   (localStorage st2 ''studyflow-share-progress'' = Some saved \<and> saved \<noteq> [] \<and>
    JSON_parse saved = Throws SyntaxError \<longrightarrow> loadProgress st2 = Throws SyntaxError) \<and>
   (t_localStorage d2 ''studyflow-theme'' = Some saved \<and> saved \<noteq> [] \<and>
    JSON_parse saved = Throws SyntaxError \<longrightarrow> loadSavedTheme d2 = Throws SyntaxError)"
  by (auto simp: loadProgress_def loadSavedTheme_def andThen_def)

lemma JSON_parse_bad: "JSON_parse ''{bad'' = Throws SyntaxError"
  by code_simp

theorem load_absent_or_malformed_witness:
  "loadProgress (fresh_sharing_page empty_storage) = Returns (fresh_sharing_page empty_storage) \<and>
   loadSavedTheme (example_theme_page empty_storage) = Returns (example_theme_page empty_storage) \<and>
   loadProgress (fresh_sharing_page (empty_storage(''studyflow-share-progress'' \<mapsto> ''not json''))) =
     Throws SyntaxError \<and>
   loadSavedTheme (example_theme_page (empty_storage(''studyflow-theme'' \<mapsto> ''not json''))) =
     Throws SyntaxError"
proof -
  have p: "JSON_parse ''not json'' = Throws SyntaxError"
    by code_simp
  show ?thesis
    using load_absent_or_malformed
      [of "fresh_sharing_page empty_storage" "example_theme_page empty_storage"
        "fresh_sharing_page (empty_storage(''studyflow-share-progress'' \<mapsto> ''not json''))"
        "''not json''"
        "example_theme_page (empty_storage(''studyflow-theme'' \<mapsto> ''not json''))"] p
    by (simp add: fresh_sharing_page_def example_theme_page_def empty_storage_def)
qed

text \<open>
  Claim C1 as stated has a malformed stored string answered with the defaults. With
  \<open>{bad\<close> stored, both functions throw.
\<close>

theorem load_malformed_counterexample:
  "loadProgress (fresh_sharing_page (empty_storage(''studyflow-share-progress'' \<mapsto> ''{bad''))) =
     Throws SyntaxError \<and>
   loadSavedTheme (example_theme_page (empty_storage(''studyflow-theme'' \<mapsto> ''{bad''))) =
     Throws SyntaxError"
  by (simp add: loadProgress_def loadSavedTheme_def fresh_sharing_page_def
      example_theme_page_def JSON_parse_bad andThen_def)

end
